theory Spec2Isabelle
  imports Complex_Main "HOL-Library.Word" "HOL-Library.Log_Nat"
    "HOL-Library.Code_Target_Numeral"
begin

unbundle bit_operations_syntax

section \<open>Build configuration\<close>

text \<open>
  \<^verbatim>\<open>simd.h\<close> selects one implementation of every operation with the preprocessor.
  \<^verbatim>\<open>OIIO_SIMD_SSE\<close> is undefined (no acceleration), 2, 3 or 4; the model takes the
  choice as a value, so that every operation is one function of the backend and a
  theorem can speak about all builds at once.
\<close>

datatype backend = NoSIMD | SSE2 | SSE3 | SSE4

fun OIIO_SIMD_SSE :: "backend \<Rightarrow> nat" where
  "OIIO_SIMD_SSE NoSIMD = 0"
| "OIIO_SIMD_SSE SSE2 = 2"
| "OIIO_SIMD_SSE SSE3 = 3"
| "OIIO_SIMD_SSE SSE4 = 4"

text \<open>\<^verbatim>\<open>defined(OIIO_SIMD_SSE)\<close>, which is also \<^verbatim>\<open>OIIO_SIMD\<close> being 1.\<close>

definition defined_SSE :: "backend \<Rightarrow> bool" where
  "defined_SSE be = (OIIO_SIMD_SSE be \<noteq> 0)"

section \<open>Data model\<close>

text \<open>
  Every vector class is a union of the native register and an array of four 32-bit
  scalars. A lane is kept as its 32 bits: an \<^verbatim>\<open>int\<close> is the two's complement word, a
  \<^verbatim>\<open>float\<close> is its IEEE-754 binary32 pattern. Lane 0 comes first.
\<close>

type_synonym w32 = "32 word"

datatype v4 = V4 w32 w32 w32 w32

type_synonym mask4 = v4
type_synonym int4 = v4
type_synonym float4 = v4
type_synonym float3 = v4

fun lane :: "v4 \<Rightarrow> nat \<Rightarrow> w32" where
  "lane (V4 a b c d) i = (if i = 0 then a else if i = 1 then b else if i = 2 then c else d)"

fun set_lane :: "v4 \<Rightarrow> nat \<Rightarrow> w32 \<Rightarrow> v4" where
  "set_lane (V4 a b c d) i v =
     (if i = 0 then V4 v b c d else if i = 1 then V4 a v c d
      else if i = 2 then V4 a b v d else V4 a b c v)"

text \<open>\<^verbatim>\<open>SIMD_RETURN(T,x)\<close>: \<^verbatim>\<open>T r; for (i...) r[i] = (x); return r\<close>.\<close>

definition SIMD_RETURN :: "(nat \<Rightarrow> w32) \<Rightarrow> v4" where
  "SIMD_RETURN f = V4 (f 0) (f 1) (f 2) (f 3)"

definition splat :: "w32 \<Rightarrow> v4" where
  "splat a = V4 a a a a"

section \<open>IEEE-754 binary32 scalars\<close>

definition f_sign :: "w32 \<Rightarrow> bool" where
  "f_sign x = (2 ^ 31 \<le> unat x)"

definition f_exp :: "w32 \<Rightarrow> nat" where
  "f_exp x = (unat x div 2 ^ 23) mod 256"

definition f_man :: "w32 \<Rightarrow> nat" where
  "f_man x = unat x mod 2 ^ 23"

definition is_nan :: "w32 \<Rightarrow> bool" where
  "is_nan x = (f_exp x = 255 \<and> f_man x \<noteq> 0)"

definition is_inf :: "w32 \<Rightarrow> bool" where
  "is_inf x = (f_exp x = 255 \<and> f_man x = 0)"

definition is_finite :: "w32 \<Rightarrow> bool" where
  "is_finite x = (f_exp x < 255)"

definition is_zero :: "w32 \<Rightarrow> bool" where
  "is_zero x = (f_exp x = 0 \<and> f_man x = 0)"

definition pow2 :: "int \<Rightarrow> rat" where
  "pow2 e = (if 0 \<le> e then 2 ^ nat e else 1 / 2 ^ nat (- e))"

text \<open>The magnitude and the value of a finite pattern.\<close>

definition f_mag :: "w32 \<Rightarrow> rat" where
  "f_mag x = (if f_exp x = 0 then of_nat (f_man x) * pow2 (- 149)
              else of_nat (2 ^ 23 + f_man x) * pow2 (int (f_exp x) - 150))"

definition f_val :: "w32 \<Rightarrow> rat" where
  "f_val x = (if f_sign x then - f_mag x else f_mag x)"

text \<open>
  Ordered comparison. For patterns that are not NaN the magnitude bits grow with the
  magnitude (infinity last), so the signed magnitude bits order the values; both zeros
  get the key 0. Every comparison with a NaN is false, except \<^verbatim>\<open>!=\<close>.
\<close>

definition f_key :: "w32 \<Rightarrow> int" where
  "f_key x = (if f_sign x then - int (unat x mod 2 ^ 31) else int (unat x mod 2 ^ 31))"

definition f_eq :: "w32 \<Rightarrow> w32 \<Rightarrow> bool" where
  "f_eq a b = (\<not> is_nan a \<and> \<not> is_nan b \<and> f_key a = f_key b)"

definition f_lt :: "w32 \<Rightarrow> w32 \<Rightarrow> bool" where
  "f_lt a b = (\<not> is_nan a \<and> \<not> is_nan b \<and> f_key a < f_key b)"

definition f_le :: "w32 \<Rightarrow> w32 \<Rightarrow> bool" where
  "f_le a b = (\<not> is_nan a \<and> \<not> is_nan b \<and> f_key a \<le> f_key b)"

definition f_zero :: w32 where "f_zero = 0"
definition f_one :: w32 where "f_one = 0x3F800000"

section \<open>The intrinsics used\<close>

definition map2_lanes :: "(w32 \<Rightarrow> w32 \<Rightarrow> w32) \<Rightarrow> v4 \<Rightarrow> v4 \<Rightarrow> v4" where
  "map2_lanes f a b = SIMD_RETURN (\<lambda>i. f (lane a i) (lane b i))"

definition bool_lane :: "bool \<Rightarrow> w32" where
  "bool_lane c = (if c then - 1 else 0)"

definition mm_setzero :: v4 where "mm_setzero = splat 0"
definition mm_and :: "v4 \<Rightarrow> v4 \<Rightarrow> v4" where "mm_and = map2_lanes (\<lambda>x y. x AND y)"
definition mm_or :: "v4 \<Rightarrow> v4 \<Rightarrow> v4" where "mm_or = map2_lanes (\<lambda>x y. x OR y)"
definition mm_xor :: "v4 \<Rightarrow> v4 \<Rightarrow> v4" where "mm_xor = map2_lanes (\<lambda>x y. x XOR y)"
definition mm_andnot :: "v4 \<Rightarrow> v4 \<Rightarrow> v4" where "mm_andnot = map2_lanes (\<lambda>x y. NOT x AND y)"

definition mm_cmpeq_epi8 :: "v4 \<Rightarrow> v4 \<Rightarrow> v4" where
  "mm_cmpeq_epi8 = map2_lanes (\<lambda>x y.
     (if take_bit 8 x = take_bit 8 y then 0xFF else 0)
     OR (if take_bit 8 (drop_bit 8 x) = take_bit 8 (drop_bit 8 y) then 0xFF00 else 0)
     OR (if take_bit 8 (drop_bit 16 x) = take_bit 8 (drop_bit 16 y) then 0xFF0000 else 0)
     OR (if drop_bit 24 x = drop_bit 24 y then 0xFF000000 else 0))"

definition mm_cmpeq_epi32 :: "v4 \<Rightarrow> v4 \<Rightarrow> v4" where
  "mm_cmpeq_epi32 = map2_lanes (\<lambda>x y. bool_lane (x = y))"
definition mm_cmplt_epi32 :: "v4 \<Rightarrow> v4 \<Rightarrow> v4" where
  "mm_cmplt_epi32 = map2_lanes (\<lambda>x y. bool_lane (sint x < sint y))"
definition mm_cmpgt_epi32 :: "v4 \<Rightarrow> v4 \<Rightarrow> v4" where
  "mm_cmpgt_epi32 = map2_lanes (\<lambda>x y. bool_lane (sint x > sint y))"

definition mm_cmpeq_ps :: "v4 \<Rightarrow> v4 \<Rightarrow> v4" where
  "mm_cmpeq_ps = map2_lanes (\<lambda>x y. bool_lane (f_eq x y))"
definition mm_cmpneq_ps :: "v4 \<Rightarrow> v4 \<Rightarrow> v4" where
  "mm_cmpneq_ps = map2_lanes (\<lambda>x y. bool_lane (\<not> f_eq x y))"
definition mm_cmplt_ps :: "v4 \<Rightarrow> v4 \<Rightarrow> v4" where
  "mm_cmplt_ps = map2_lanes (\<lambda>x y. bool_lane (f_lt x y))"
definition mm_cmpgt_ps :: "v4 \<Rightarrow> v4 \<Rightarrow> v4" where
  "mm_cmpgt_ps = map2_lanes (\<lambda>x y. bool_lane (f_lt y x))"
definition mm_cmple_ps :: "v4 \<Rightarrow> v4 \<Rightarrow> v4" where
  "mm_cmple_ps = map2_lanes (\<lambda>x y. bool_lane (f_le x y))"
definition mm_cmpge_ps :: "v4 \<Rightarrow> v4 \<Rightarrow> v4" where
  "mm_cmpge_ps = map2_lanes (\<lambda>x y. bool_lane (f_le y x))"

text \<open>\<^verbatim>\<open>_mm_movemask_ps\<close>: bit i of the result is the top bit of lane i.\<close>

definition mm_movemask_ps :: "v4 \<Rightarrow> nat" where
  "mm_movemask_ps v = (if bit (lane v 0) 31 then 1 else 0) + (if bit (lane v 1) 31 then 2 else 0)
     + (if bit (lane v 2) 31 then 4 else 0) + (if bit (lane v 3) 31 then 8 else 0)"

text \<open>\<^verbatim>\<open>_mm_shuffle_epi32 (v, _MM_SHUFFLE(i3,i2,i1,i0))\<close>; the SSE3 special cases
  (\<^verbatim>\<open>movsldup\<close>, \<^verbatim>\<open>movshdup\<close>, \<^verbatim>\<open>movddup\<close>) compute the same lanes.\<close>

definition shuffle_sse :: "nat \<Rightarrow> nat \<Rightarrow> nat \<Rightarrow> nat \<Rightarrow> v4 \<Rightarrow> v4" where
  "shuffle_sse i0 i1 i2 i3 v = V4 (lane v i0) (lane v i1) (lane v i2) (lane v i3)"

text \<open>\<^verbatim>\<open>_mm_blendv_ps\<close> looks at the top bit of each mask lane, \<^verbatim>\<open>_mm_blendv_epi8\<close> at the
  top bit of each mask byte.\<close>

definition mm_blendv_ps :: "v4 \<Rightarrow> v4 \<Rightarrow> v4 \<Rightarrow> v4" where
  "mm_blendv_ps a b m = SIMD_RETURN (\<lambda>i. if bit (lane m i) 31 then lane b i else lane a i)"

definition byte_select :: "w32 \<Rightarrow> w32" where
  "byte_select m = (if bit m 7 then 0xFF else 0) OR (if bit m 15 then 0xFF00 else 0)
     OR (if bit m 23 then 0xFF0000 else 0) OR (if bit m 31 then 0xFF000000 else 0)"

definition mm_blendv_epi8 :: "v4 \<Rightarrow> v4 \<Rightarrow> v4 \<Rightarrow> v4" where
  "mm_blendv_epi8 a b m = SIMD_RETURN (\<lambda>i.
     (lane b i AND byte_select (lane m i)) OR (lane a i AND NOT (byte_select (lane m i))))"

section \<open>mask4\<close>

definition mask4_load :: "backend \<Rightarrow> bool \<Rightarrow> mask4" where
  "mask4_load be a = splat (if a then - 1 else 0)"

definition mask4_load4 :: "backend \<Rightarrow> bool \<Rightarrow> bool \<Rightarrow> bool \<Rightarrow> bool \<Rightarrow> mask4" where
  "mask4_load4 be a b c d =
     V4 (if a then - 1 else 0) (if b then - 1 else 0) (if c then - 1 else 0) (if d then - 1 else 0)"

text \<open>The constructors \<^verbatim>\<open>mask4(bool)\<close> and \<^verbatim>\<open>mask4(bool,bool,bool,bool)\<close> call \<^verbatim>\<open>load\<close>;
  \<^verbatim>\<open>mask4(const simd_t&)\<close> takes the raw register as it is.\<close>

definition mask4_bool :: "backend \<Rightarrow> bool \<Rightarrow> mask4" where
  "mask4_bool be a = mask4_load be a"

definition mask4_bool4 :: "backend \<Rightarrow> bool \<Rightarrow> bool \<Rightarrow> bool \<Rightarrow> bool \<Rightarrow> mask4" where
  "mask4_bool4 be a b c d = mask4_load4 be a b c d"

definition mask4_simd :: "v4 \<Rightarrow> mask4" where
  "mask4_simd m = m"

definition mask4_False :: "backend \<Rightarrow> mask4" where
  "mask4_False be = (if defined_SSE be then mm_setzero else mask4_bool be False)"

definition mask4_True :: "backend \<Rightarrow> mask4" where
  "mask4_True be = (if defined_SSE be then mm_cmpeq_epi8 mm_setzero mm_setzero
                    else mask4_bool be True)"

text \<open>\<^verbatim>\<open>clear\<close> and the two assignments, as the new value of \<^verbatim>\<open>*this\<close>.\<close>

definition mask4_clear :: "backend \<Rightarrow> mask4 \<Rightarrow> mask4" where
  "mask4_clear be this = (if defined_SSE be then mm_setzero else mask4_load be False)"

definition mask4_assign_bool :: "backend \<Rightarrow> mask4 \<Rightarrow> bool \<Rightarrow> mask4" where
  "mask4_assign_bool be this a = mask4_load be a"

definition mask4_assign :: "backend \<Rightarrow> mask4 \<Rightarrow> mask4 \<Rightarrow> mask4" where
  "mask4_assign be this other =
     (if defined_SSE be then other else SIMD_RETURN (\<lambda>i. lane other i))"

text \<open>\<^verbatim>\<open>bool operator[] (int i) const\<close>.\<close>

definition mask4_get :: "backend \<Rightarrow> mask4 \<Rightarrow> nat \<Rightarrow> bool" where
  "mask4_get be m i = (if defined_SSE be then odd (mm_movemask_ps m div 2 ^ i)
                       else lane m i \<noteq> 0)"

text \<open>\<^verbatim>\<open>int& operator[] (int i)\<close> hands out the lane itself; a write through the
  reference stores any \<^verbatim>\<open>int\<close>.\<close>

definition mask4_set :: "mask4 \<Rightarrow> nat \<Rightarrow> w32 \<Rightarrow> mask4" where
  "mask4_set m i v = set_lane m i v"

definition mask4_not :: "backend \<Rightarrow> mask4 \<Rightarrow> mask4" where
  "mask4_not be a = (if defined_SSE be then mm_xor a (mask4_True be)
                     else SIMD_RETURN (\<lambda>i. lane a i XOR (- 1)))"

definition mask4_and :: "backend \<Rightarrow> mask4 \<Rightarrow> mask4 \<Rightarrow> mask4" where
  "mask4_and be a b = (if defined_SSE be then mm_and a b
                       else SIMD_RETURN (\<lambda>i. lane a i AND lane b i))"

definition mask4_or :: "backend \<Rightarrow> mask4 \<Rightarrow> mask4 \<Rightarrow> mask4" where
  "mask4_or be a b = (if defined_SSE be then mm_or a b
                      else SIMD_RETURN (\<lambda>i. lane a i OR lane b i))"

definition mask4_xor :: "backend \<Rightarrow> mask4 \<Rightarrow> mask4 \<Rightarrow> mask4" where
  "mask4_xor be a b = (if defined_SSE be then mm_xor a b
                       else SIMD_RETURN (\<lambda>i. lane a i XOR lane b i))"

text \<open>\<^verbatim>\<open>&=\<close>, \<^verbatim>\<open>|=\<close>, \<^verbatim>\<open>^=\<close>: \<^verbatim>\<open>return *this = *this & b\<close>.\<close>

definition mask4_and_assign :: "backend \<Rightarrow> mask4 \<Rightarrow> mask4 \<Rightarrow> mask4" where
  "mask4_and_assign be this b = mask4_assign be this (mask4_and be this b)"

definition mask4_or_assign :: "backend \<Rightarrow> mask4 \<Rightarrow> mask4 \<Rightarrow> mask4" where
  "mask4_or_assign be this a = mask4_assign be this (mask4_or be this a)"

definition mask4_xor_assign :: "backend \<Rightarrow> mask4 \<Rightarrow> mask4 \<Rightarrow> mask4" where
  "mask4_xor_assign be this a = mask4_assign be this (mask4_xor be this a)"

definition mask4_compl :: "backend \<Rightarrow> mask4 \<Rightarrow> mask4" where
  "mask4_compl be this = (if defined_SSE be then mm_xor this (mm_cmpeq_epi8 this this)
                          else SIMD_RETURN (\<lambda>i. NOT (lane this i)))"

definition mask4_eq :: "backend \<Rightarrow> mask4 \<Rightarrow> mask4 \<Rightarrow> mask4" where
  "mask4_eq be a b = (if defined_SSE be then mm_cmpeq_epi32 a b
                      else SIMD_RETURN (\<lambda>i. if lane a i = lane b i then - 1 else 0))"

definition mask4_ne :: "backend \<Rightarrow> mask4 \<Rightarrow> mask4 \<Rightarrow> mask4" where
  "mask4_ne be a b = (if defined_SSE be then mm_xor a b
                      else SIMD_RETURN (\<lambda>i. if lane a i \<noteq> lane b i then - 1 else 0))"

definition mask4_shuffle :: "backend \<Rightarrow> nat \<Rightarrow> nat \<Rightarrow> nat \<Rightarrow> nat \<Rightarrow> mask4 \<Rightarrow> mask4" where
  "mask4_shuffle be i0 i1 i2 i3 a =
     (if defined_SSE be then shuffle_sse i0 i1 i2 i3 a
      else mask4_bool4 be (mask4_get be a i0) (mask4_get be a i1)
                          (mask4_get be a i2) (mask4_get be a i3))"

definition mask4_shuffle1 :: "backend \<Rightarrow> nat \<Rightarrow> mask4 \<Rightarrow> mask4" where
  "mask4_shuffle1 be i a = mask4_shuffle be i i i i a"

text \<open>\<^verbatim>\<open>extract<i>\<close>: with SSE4.1 the \<^verbatim>\<open>int\<close> of \<^verbatim>\<open>_mm_extract_epi32\<close> converted to
  \<^verbatim>\<open>bool\<close>, otherwise \<^verbatim>\<open>a[i]\<close>.\<close>

definition mask4_extract :: "backend \<Rightarrow> nat \<Rightarrow> mask4 \<Rightarrow> bool" where
  "mask4_extract be i a = (if 4 \<le> OIIO_SIMD_SSE be then lane a i \<noteq> 0 else mask4_get be a i)"

definition mask4_insert :: "backend \<Rightarrow> nat \<Rightarrow> mask4 \<Rightarrow> bool \<Rightarrow> mask4" where
  "mask4_insert be i a val =
     (if 4 \<le> OIIO_SIMD_SSE be then set_lane a i (if val then - 1 else 0)
      else mask4_set a i (if val then - 1 else 0))"

definition mask4_reduce_and :: "backend \<Rightarrow> mask4 \<Rightarrow> bool" where
  "mask4_reduce_and be v = (if defined_SSE be then mm_movemask_ps v = 0xf
     else mask4_get be v 0 \<and> mask4_get be v 1 \<and> mask4_get be v 2 \<and> mask4_get be v 3)"

definition mask4_reduce_or :: "backend \<Rightarrow> mask4 \<Rightarrow> bool" where
  "mask4_reduce_or be v = (if defined_SSE be then mm_movemask_ps v \<noteq> 0
     else mask4_get be v 0 \<or> mask4_get be v 1 \<or> mask4_get be v 2 \<or> mask4_get be v 3)"

definition all4 :: "backend \<Rightarrow> mask4 \<Rightarrow> bool" where
  "all4 be v = (mask4_reduce_and be v = True)"

definition any4 :: "backend \<Rightarrow> mask4 \<Rightarrow> bool" where
  "any4 be v = (mask4_reduce_or be v = True)"

definition none4 :: "backend \<Rightarrow> mask4 \<Rightarrow> bool" where
  "none4 be v = (mask4_reduce_or be v = False)"

text \<open>A lane is canonical when it is all zeros or all ones.\<close>

definition canonical_lane :: "w32 \<Rightarrow> bool" where
  "canonical_lane w = (w = 0 \<or> w = - 1)"

definition canonical :: "mask4 \<Rightarrow> bool" where
  "canonical m = (canonical_lane (lane m 0) \<and> canonical_lane (lane m 1)
                  \<and> canonical_lane (lane m 2) \<and> canonical_lane (lane m 3))"

section \<open>int4\<close>

definition int4_load :: "backend \<Rightarrow> w32 \<Rightarrow> int4" where
  "int4_load be a = (if defined_SSE be then splat a else SIMD_RETURN (\<lambda>i. a))"

definition int4_load4 :: "backend \<Rightarrow> w32 \<Rightarrow> w32 \<Rightarrow> w32 \<Rightarrow> w32 \<Rightarrow> int4" where
  "int4_load4 be a b c d = V4 a b c d"

text \<open>\<^verbatim>\<open>load (const int *values)\<close>; the memory read is the list of the four values.\<close>

definition int4_load_values :: "backend \<Rightarrow> w32 list \<Rightarrow> int4" where
  "int4_load_values be values = SIMD_RETURN (\<lambda>i. values ! i)"

definition int4_int :: "backend \<Rightarrow> w32 \<Rightarrow> int4" where
  "int4_int be a = int4_load be a"

definition int4_int4 :: "backend \<Rightarrow> w32 \<Rightarrow> w32 \<Rightarrow> w32 \<Rightarrow> w32 \<Rightarrow> int4" where
  "int4_int4 be a b c d = int4_load4 be a b c d"

definition int4_Zero :: "backend \<Rightarrow> int4" where
  "int4_Zero be = (if defined_SSE be then mm_setzero else int4_int be 0)"

text \<open>The array member \<^verbatim>\<open>m_val\<close>, as the memory the pointer constructor reads.\<close>

definition m_val :: "v4 \<Rightarrow> w32 list" where
  "m_val v = [lane v 0, lane v 1, lane v 2, lane v 3]"

definition int4_add :: "backend \<Rightarrow> int4 \<Rightarrow> int4 \<Rightarrow> int4" where
  "int4_add be a b = (if defined_SSE be then map2_lanes (\<lambda>x y. x + y) a b
                      else SIMD_RETURN (\<lambda>i. lane a i + lane b i))"

definition int4_and :: "backend \<Rightarrow> int4 \<Rightarrow> int4 \<Rightarrow> int4" where
  "int4_and be a b = (if defined_SSE be then mm_and a b
                      else SIMD_RETURN (\<lambda>i. lane a i AND lane b i))"

definition int4_or :: "backend \<Rightarrow> int4 \<Rightarrow> int4 \<Rightarrow> int4" where
  "int4_or be a b = (if defined_SSE be then mm_or a b
                     else SIMD_RETURN (\<lambda>i. lane a i OR lane b i))"

text \<open>\<^verbatim>\<open>operator<<\<close>: \<^verbatim>\<open>_mm_slli_epi32\<close> gives 0 for a count above 31; the scalar
  \<^verbatim>\<open>m_val[i] << bits\<close> is only defined below 32.\<close>

definition int4_shl :: "backend \<Rightarrow> int4 \<Rightarrow> nat \<Rightarrow> int4" where
  "int4_shl be this bits = SIMD_RETURN (\<lambda>i. push_bit bits (lane this i))"

definition int4_eq :: "backend \<Rightarrow> int4 \<Rightarrow> int4 \<Rightarrow> mask4" where
  "int4_eq be a b = (if defined_SSE be then mm_cmpeq_epi32 a b
                     else SIMD_RETURN (\<lambda>i. if lane a i = lane b i then - 1 else 0))"

definition int4_ne :: "backend \<Rightarrow> int4 \<Rightarrow> int4 \<Rightarrow> mask4" where
  "int4_ne be a b = mask4_not be (int4_eq be a b)"

definition int4_lt :: "backend \<Rightarrow> int4 \<Rightarrow> int4 \<Rightarrow> mask4" where
  "int4_lt be a b = (if defined_SSE be then mm_cmplt_epi32 a b
                     else SIMD_RETURN (\<lambda>i. if sint (lane a i) < sint (lane b i) then - 1 else 0))"

definition int4_gt :: "backend \<Rightarrow> int4 \<Rightarrow> int4 \<Rightarrow> mask4" where
  "int4_gt be a b = (if defined_SSE be then mm_cmpgt_epi32 a b
                     else SIMD_RETURN (\<lambda>i. if sint (lane a i) > sint (lane b i) then - 1 else 0))"

definition int4_ge :: "backend \<Rightarrow> int4 \<Rightarrow> int4 \<Rightarrow> mask4" where
  "int4_ge be a b = mask4_not be (int4_lt be a b)"

definition int4_le :: "backend \<Rightarrow> int4 \<Rightarrow> int4 \<Rightarrow> mask4" where
  "int4_le be a b = mask4_not be (int4_gt be a b)"

text \<open>\<^verbatim>\<open>mask4::mask4 (const int4& ival)\<close>.\<close>

definition mask4_int4 :: "backend \<Rightarrow> int4 \<Rightarrow> mask4" where
  "mask4_int4 be ival = (if defined_SSE be then int4_ne be ival (int4_Zero be)
                         else SIMD_RETURN (\<lambda>i. if lane ival i \<noteq> 0 then - 1 else 0))"

definition int4_shuffle :: "backend \<Rightarrow> nat \<Rightarrow> nat \<Rightarrow> nat \<Rightarrow> nat \<Rightarrow> int4 \<Rightarrow> int4" where
  "int4_shuffle be i0 i1 i2 i3 a =
     (if defined_SSE be then shuffle_sse i0 i1 i2 i3 a
      else int4_int4 be (lane a i0) (lane a i1) (lane a i2) (lane a i3))"

definition bitcast_to_int4 :: "backend \<Rightarrow> v4 \<Rightarrow> int4" where
  "bitcast_to_int4 be x = x"

definition bitcast_to_float4 :: "backend \<Rightarrow> int4 \<Rightarrow> float4" where
  "bitcast_to_float4 be x = x"

definition int4_blend :: "backend \<Rightarrow> int4 \<Rightarrow> int4 \<Rightarrow> mask4 \<Rightarrow> int4" where
  "int4_blend be a b msk =
     (if 4 \<le> OIIO_SIMD_SSE be then mm_blendv_epi8 a b msk
      else if defined_SSE be then mm_or (mm_and msk b) (mm_andnot msk a)
      else SIMD_RETURN (\<lambda>i. if mask4_get be msk i then lane b i else lane a i))"

definition int4_select :: "backend \<Rightarrow> mask4 \<Rightarrow> int4 \<Rightarrow> int4 \<Rightarrow> int4" where
  "int4_select be msk a b = int4_blend be b a msk"

subsection \<open>Narrowing stores\<close>

text \<open>
  The register seen as eight half-words, little-endian: half-word \<open>j\<close> is the low
  (\<open>j\<close> even) or high (\<open>j\<close> odd) half of lane \<open>j div 2\<close>.
\<close>

definition hw :: "v4 \<Rightarrow> nat \<Rightarrow> 16 word" where
  "hw v j = ucast (drop_bit (16 * (j mod 2)) (lane v (j div 2)))"

definition join16 :: "16 word \<Rightarrow> 16 word \<Rightarrow> w32" where
  "join16 lo hi = ucast lo OR push_bit 16 (ucast hi)"

definition mm_shufflelo_epi16 :: "v4 \<Rightarrow> nat \<Rightarrow> v4" where
  "mm_shufflelo_epi16 v imm =
     V4 (join16 (hw v (imm mod 4)) (hw v (imm div 4 mod 4)))
        (join16 (hw v (imm div 16 mod 4)) (hw v (imm div 64 mod 4)))
        (lane v 2) (lane v 3)"

definition mm_shufflehi_epi16 :: "v4 \<Rightarrow> nat \<Rightarrow> v4" where
  "mm_shufflehi_epi16 v imm =
     V4 (lane v 0) (lane v 1)
        (join16 (hw v (4 + imm mod 4)) (hw v (4 + imm div 4 mod 4)))
        (join16 (hw v (4 + imm div 16 mod 4)) (hw v (4 + imm div 64 mod 4)))"

text \<open>\<^verbatim>\<open>_mm_storel_pd\<close> writes the low 64 bits: four half-words in memory order.\<close>

definition mm_storel_pd_u16 :: "v4 \<Rightarrow> 16 word list" where
  "mm_storel_pd_u16 v = [hw v 0, hw v 1, hw v 2, hw v 3]"

text \<open>\<^verbatim>\<open>*(int*)values = x\<close> writes the four bytes of \<open>x\<close>, lowest first.\<close>

definition store_int_u8 :: "w32 \<Rightarrow> 8 word list" where
  "store_int_u8 x = [ucast x, ucast (drop_bit 8 x), ucast (drop_bit 16 x), ucast (drop_bit 24 x)]"

text \<open>\<^verbatim>\<open>void int4::store (unsigned short *values) const\<close>: the four values written.\<close>

definition int4_store_ushort :: "backend \<Rightarrow> int4 \<Rightarrow> 16 word list" where
  "int4_store_ushort be this =
     (if defined_SSE be then
        (let clamped = int4_and be (int4_load_values be (m_val this)) (int4_int be 0xffff);
             low = mm_shufflelo_epi16 clamped (0 * 1 + 2 * 4 + 1 * 16 + 1 * 64);
             high = mm_shufflehi_epi16 clamped (1 * 1 + 1 * 4 + 0 * 16 + 2 * 64);
             highswapped = shuffle_sse 2 3 0 1 high;
             result = int4_or be low highswapped
         in mm_storel_pd_u16 result)
      else map (\<lambda>i. ucast (lane this i)) [0, 1, 2, 3])"

text \<open>\<^verbatim>\<open>void int4::store (unsigned char *values) const\<close>.\<close>

definition int4_store_uchar :: "backend \<Rightarrow> int4 \<Rightarrow> 8 word list" where
  "int4_store_uchar be this =
     (if defined_SSE be then
        (let clamped = int4_and be (int4_load_values be (m_val this)) (int4_int be 0xff);
             swapped = shuffle_sse 1 0 3 2 clamped;
             shifted = int4_shl be swapped 8;
             merged = int4_or be clamped shifted;
             merged2 = shuffle_sse 2 2 2 2 merged;
             shifted2 = int4_shl be merged2 16;
             result = int4_or be merged shifted2
         in store_int_u8 (lane result 0))
      else map (\<lambda>i. ucast (lane this i)) [0, 1, 2, 3])"

section \<open>float4: construction, comparison, selection\<close>

definition float4_load :: "backend \<Rightarrow> w32 \<Rightarrow> float4" where
  "float4_load be val = (if defined_SSE be then splat val else SIMD_RETURN (\<lambda>i. val))"

definition float4_load4 :: "backend \<Rightarrow> w32 \<Rightarrow> w32 \<Rightarrow> w32 \<Rightarrow> w32 \<Rightarrow> float4" where
  "float4_load4 be a b c d = V4 a b c d"

definition float4_float :: "backend \<Rightarrow> w32 \<Rightarrow> float4" where
  "float4_float be a = float4_load be a"

definition float4_float4 :: "backend \<Rightarrow> w32 \<Rightarrow> w32 \<Rightarrow> w32 \<Rightarrow> w32 \<Rightarrow> float4" where
  "float4_float4 be a b c d = float4_load4 be a b c d"

definition float4_Zero :: "backend \<Rightarrow> float4" where
  "float4_Zero be = (if defined_SSE be then mm_setzero else float4_float be f_zero)"

definition float4_One :: "backend \<Rightarrow> float4" where
  "float4_One be = float4_float be f_one"

definition float4_eq :: "backend \<Rightarrow> float4 \<Rightarrow> float4 \<Rightarrow> mask4" where
  "float4_eq be a b = (if defined_SSE be then mm_cmpeq_ps a b
     else SIMD_RETURN (\<lambda>i. if f_eq (lane a i) (lane b i) then - 1 else 0))"

definition float4_ne :: "backend \<Rightarrow> float4 \<Rightarrow> float4 \<Rightarrow> mask4" where
  "float4_ne be a b = (if defined_SSE be then mm_cmpneq_ps a b
     else SIMD_RETURN (\<lambda>i. if \<not> f_eq (lane a i) (lane b i) then - 1 else 0))"

definition float4_lt :: "backend \<Rightarrow> float4 \<Rightarrow> float4 \<Rightarrow> mask4" where
  "float4_lt be a b = (if defined_SSE be then mm_cmplt_ps a b
     else SIMD_RETURN (\<lambda>i. if f_lt (lane a i) (lane b i) then - 1 else 0))"

definition float4_gt :: "backend \<Rightarrow> float4 \<Rightarrow> float4 \<Rightarrow> mask4" where
  "float4_gt be a b = (if defined_SSE be then mm_cmpgt_ps a b
     else SIMD_RETURN (\<lambda>i. if f_lt (lane b i) (lane a i) then - 1 else 0))"

definition float4_ge :: "backend \<Rightarrow> float4 \<Rightarrow> float4 \<Rightarrow> mask4" where
  "float4_ge be a b = (if defined_SSE be then mm_cmpge_ps a b
     else SIMD_RETURN (\<lambda>i. if f_le (lane b i) (lane a i) then - 1 else 0))"

definition float4_le :: "backend \<Rightarrow> float4 \<Rightarrow> float4 \<Rightarrow> mask4" where
  "float4_le be a b = (if defined_SSE be then mm_cmple_ps a b
     else SIMD_RETURN (\<lambda>i. if f_le (lane a i) (lane b i) then - 1 else 0))"

definition float4_shuffle :: "backend \<Rightarrow> nat \<Rightarrow> nat \<Rightarrow> nat \<Rightarrow> nat \<Rightarrow> float4 \<Rightarrow> float4" where
  "float4_shuffle be i0 i1 i2 i3 a =
     (if defined_SSE be then shuffle_sse i0 i1 i2 i3 a
      else float4_float4 be (lane a i0) (lane a i1) (lane a i2) (lane a i3))"

definition float4_shuffle1 :: "backend \<Rightarrow> nat \<Rightarrow> float4 \<Rightarrow> float4" where
  "float4_shuffle1 be i a = float4_shuffle be i i i i a"

text \<open>\<^verbatim>\<open>insert<i>\<close>: \<^verbatim>\<open>_mm_insert_ps (a, _mm_set_ss(val), i<<4)\<close> and \<^verbatim>\<open>_mm_move_ss\<close>
  replace lane \<open>i\<close> and keep the others, as \<^verbatim>\<open>tmp[i] = val\<close> does.\<close>

definition float4_insert :: "backend \<Rightarrow> nat \<Rightarrow> float4 \<Rightarrow> w32 \<Rightarrow> float4" where
  "float4_insert be i a val = set_lane a i val"

definition xyz0 :: "backend \<Rightarrow> float4 \<Rightarrow> float4" where
  "xyz0 be this = float4_insert be 3 this f_zero"

definition xyz1 :: "backend \<Rightarrow> float4 \<Rightarrow> float4" where
  "xyz1 be this = float4_insert be 3 this f_one"

definition blend :: "backend \<Rightarrow> float4 \<Rightarrow> float4 \<Rightarrow> mask4 \<Rightarrow> float4" where
  "blend be a b msk =
     (if 4 \<le> OIIO_SIMD_SSE be then mm_blendv_ps a b msk
      else if defined_SSE be then mm_or (mm_and msk b) (mm_andnot msk a)
      else float4_float4 be (if mask4_get be msk 0 then lane b 0 else lane a 0)
                            (if mask4_get be msk 1 then lane b 1 else lane a 1)
                            (if mask4_get be msk 2 then lane b 2 else lane a 2)
                            (if mask4_get be msk 3 then lane b 3 else lane a 3))"

definition blend0 :: "backend \<Rightarrow> float4 \<Rightarrow> mask4 \<Rightarrow> float4" where
  "blend0 be a msk =
     (if defined_SSE be then mm_and msk a
      else float4_float4 be (if mask4_get be msk 0 then lane a 0 else f_zero)
                            (if mask4_get be msk 1 then lane a 1 else f_zero)
                            (if mask4_get be msk 2 then lane a 2 else f_zero)
                            (if mask4_get be msk 3 then lane a 3 else f_zero))"

definition blend0not :: "backend \<Rightarrow> float4 \<Rightarrow> mask4 \<Rightarrow> float4" where
  "blend0not be a msk =
     (if defined_SSE be then mm_andnot msk a
      else float4_float4 be (if mask4_get be msk 0 then f_zero else lane a 0)
                            (if mask4_get be msk 1 then f_zero else lane a 1)
                            (if mask4_get be msk 2 then f_zero else lane a 2)
                            (if mask4_get be msk 3 then f_zero else lane a 3))"

definition select :: "backend \<Rightarrow> mask4 \<Rightarrow> float4 \<Rightarrow> float4 \<Rightarrow> float4" where
  "select be msk a b = blend be b a msk"

section \<open>IEEE-754 binary32 arithmetic\<close>

text \<open>
  The scalar operators \<^verbatim>\<open>+ * /\<close>, \<^verbatim>\<open>sqrtf\<close>, and the packed instructions
  \<^verbatim>\<open>addps mulps divps sqrtps\<close> are the IEEE-754 operations in the default rounding mode:
  the exact result, rounded to the nearest representable value, ties to the even
  mantissa. The exact result is a rational number here.
\<close>

text \<open>Sign and magnitude bits put together.\<close>

definition f_pack :: "bool \<Rightarrow> nat \<Rightarrow> w32" where
  "f_pack s bits = (if s then 0x80000000 else 0) + of_nat bits"

definition f_inf :: "bool \<Rightarrow> w32" where
  "f_inf s = f_pack s (255 * 2 ^ 23)"

text \<open>\<open>\<lfloor>log\<^sub>2 x\<rfloor>\<close> of a positive rational \<open>p / q\<close>: the difference of the bit lengths
  or one less.\<close>

definition ilog2 :: "rat \<Rightarrow> int" where
  "ilog2 x = (case quotient_of x of (p, q) \<Rightarrow>
     (let d = bitlen p - bitlen q in if pow2 d \<le> x then d else d - 1))"

text \<open>Nearest integer, ties to even.\<close>

definition rne :: "rat \<Rightarrow> int" where
  "rne x = (let n = \<lfloor>x\<rfloor>; r = x - of_int n
            in if r < 1 / 2 then n else if 1 / 2 < r then n + 1
               else if even n then n else n + 1)"

text \<open>
  Rounding a magnitude \<open>x \<ge> 0\<close> with sign \<open>s\<close>. The spacing of the representable
  values around \<open>x\<close> is \<open>2 ^ e\<close>; \<open>x\<close> is rounded to a multiple \<open>n\<close> of it, and the
  pattern is \<open>(e + 149) * 2 ^ 23 + n\<close>: the hidden bit of \<open>n\<close> adds one to the exponent
  field, and a carry out of the mantissa moves to the next exponent. A result beyond the
  largest finite value is infinity.
\<close>

definition f_round :: "bool \<Rightarrow> rat \<Rightarrow> w32" where
  "f_round s x = (if x = 0 then f_pack s 0 else
     (let e = max (ilog2 x - 23) (- 149);
          n = rne (x / pow2 e);
          bits = nat ((e + 149) * 2 ^ 23 + n)
      in if 255 * 2 ^ 23 \<le> bits then f_inf s else f_pack s bits))"

text \<open>NaN results as the x86 instructions give them: an operand NaN made quiet, the
  first one first; an invalid operation gives the default NaN. The first operand is the
  first one of the source expression; where both operands of an addition or a
  multiplication are NaNs with different payloads, a compiler that swaps them gets the
  payload of the other one.\<close>

definition default_nan :: w32 where
  "default_nan = 0xFFC00000"

definition quiet :: "w32 \<Rightarrow> w32" where
  "quiet x = x OR 0x00400000"

definition nan_of2 :: "w32 \<Rightarrow> w32 \<Rightarrow> w32" where
  "nan_of2 a b = (if is_nan a then quiet a else quiet b)"

definition fadd :: "w32 \<Rightarrow> w32 \<Rightarrow> w32" where
  "fadd a b =
     (if is_nan a \<or> is_nan b then nan_of2 a b
      else if is_inf a then (if is_inf b \<and> f_sign a \<noteq> f_sign b then default_nan else a)
      else if is_inf b then b
      else (let v = f_val a + f_val b in
            if v = 0 then f_pack (f_sign a \<and> f_sign b) 0
            else f_round (v < 0) \<bar>v\<bar>))"

definition fmul :: "w32 \<Rightarrow> w32 \<Rightarrow> w32" where
  "fmul a b =
     (if is_nan a \<or> is_nan b then nan_of2 a b
      else if is_inf a \<or> is_inf b then
        (if is_zero a \<or> is_zero b then default_nan else f_inf (f_sign a \<noteq> f_sign b))
      else f_round (f_sign a \<noteq> f_sign b) (f_mag a * f_mag b))"

definition fdiv :: "w32 \<Rightarrow> w32 \<Rightarrow> w32" where
  "fdiv a b =
     (if is_nan a \<or> is_nan b then nan_of2 a b
      else if is_inf a then (if is_inf b then default_nan else f_inf (f_sign a \<noteq> f_sign b))
      else if is_inf b then f_pack (f_sign a \<noteq> f_sign b) 0
      else if is_zero b then
        (if is_zero a then default_nan else f_inf (f_sign a \<noteq> f_sign b))
      else f_round (f_sign a \<noteq> f_sign b) (f_mag a / f_mag b))"

text \<open>Integer square root, one result bit per step from the top.\<close>

fun isqrt_iter :: "nat \<Rightarrow> nat \<Rightarrow> nat \<Rightarrow> nat" where
  "isqrt_iter n r 0 = r"
| "isqrt_iter n r (Suc k) = (let c = r + 2 ^ k in isqrt_iter n (if c * c \<le> n then c else r) k)"

definition isqrt :: "nat \<Rightarrow> nat" where
  "isqrt n = isqrt_iter n 0 (nat (bitlen (int n)))"

text \<open>
  The square root of a finite positive \<open>x\<close>: with \<open>S = \<lfloor>sqrt (x * 2 ^ 200)\<rfloor>\<close>, the
  root lies in \<open>[S, S + 1) / 2 ^ 100\<close>. Every representable value and every midpoint
  of two neighbours in the range of a root is a multiple of \<open>2 ^ - 99\<close>, so an inexact
  root rounds as the middle \<open>(2 * S + 1) / 2 ^ 101\<close> of that interval does.
\<close>

definition fsqrt :: "w32 \<Rightarrow> w32" where
  "fsqrt a =
     (if is_nan a then quiet a
      else if is_zero a then a
      else if f_sign a then default_nan
      else if is_inf a then a
      else (let m = nat \<lfloor>f_mag a * 2 ^ 200\<rfloor>; S = isqrt m
            in f_round False (of_nat (2 * S + (if S * S = m then 0 else 1)) / 2 ^ 101)))"

text \<open>The float of an integer; a zero result takes the sign \<open>s\<close>.\<close>

definition f_of_int :: "bool \<Rightarrow> int \<Rightarrow> w32" where
  "f_of_int s n = (if n = 0 then f_pack s 0 else f_round (n < 0) (of_int \<bar>n\<bar>))"

text \<open>\<^verbatim>\<open>floorf\<close> and \<^verbatim>\<open>_mm_floor_ps\<close>: towards minus infinity.\<close>

definition floorf :: "w32 \<Rightarrow> w32" where
  "floorf x = (if is_nan x then quiet x else if is_inf x then x
               else f_of_int (f_sign x) \<lfloor>f_val x\<rfloor>)"

text \<open>\<^verbatim>\<open>roundf\<close>: to the nearest integer, halfway cases away from zero.\<close>

definition roundf :: "w32 \<Rightarrow> w32" where
  "roundf x = (if is_nan x then quiet x else if is_inf x then x
               else f_of_int (f_sign x)
                      (if f_sign x then - \<lfloor>f_mag x + 1 / 2\<rfloor> else \<lfloor>f_mag x + 1 / 2\<rfloor>))"

text \<open>\<^verbatim>\<open>_mm_round_ps (a, _MM_FROUND_TO_NEAREST_INT | _MM_FROUND_NO_EXC)\<close>: rounding
  control 0 of \<^verbatim>\<open>roundps\<close> is round to nearest, halfway cases to the even integer.\<close>

definition round_nearest_even :: "w32 \<Rightarrow> w32" where
  "round_nearest_even x = (if is_nan x then quiet x else if is_inf x then x
     else f_of_int (f_sign x) (if f_sign x then - rne (f_mag x) else rne (f_mag x)))"

text \<open>
  \<^verbatim>\<open>_mm_cvttps_epi32\<close>: truncation towards zero; a NaN, an infinity or a value
  outside the \<^verbatim>\<open>int\<close> range gives \<^verbatim>\<open>0x80000000\<close>. The scalar cast \<^verbatim>\<open>(int) f\<close> is the
  same truncation where it is defined (in range), and is taken to be the same elsewhere.
\<close>

definition cvtt :: "w32 \<Rightarrow> w32" where
  "cvtt x = (if is_nan x \<or> is_inf x then 0x80000000
             else (let n = (if f_sign x then - \<lfloor>f_mag x\<rfloor> else \<lfloor>f_mag x\<rfloor>)
                   in if - (2 ^ 31) \<le> n \<and> n < 2 ^ 31 then word_of_int n else 0x80000000))"

definition map_lanes :: "(w32 \<Rightarrow> w32) \<Rightarrow> v4 \<Rightarrow> v4" where
  "map_lanes f a = SIMD_RETURN (\<lambda>i. f (lane a i))"

definition mm_add_ps :: "v4 \<Rightarrow> v4 \<Rightarrow> v4" where "mm_add_ps = map2_lanes fadd"
definition mm_mul_ps :: "v4 \<Rightarrow> v4 \<Rightarrow> v4" where "mm_mul_ps = map2_lanes fmul"
definition mm_div_ps :: "v4 \<Rightarrow> v4 \<Rightarrow> v4" where "mm_div_ps = map2_lanes fdiv"
definition mm_sqrt_ps :: "v4 \<Rightarrow> v4" where "mm_sqrt_ps = map_lanes fsqrt"
definition mm_floor_ps :: "v4 \<Rightarrow> v4" where "mm_floor_ps = map_lanes floorf"
definition mm_round_ps_nearest :: "v4 \<Rightarrow> v4" where "mm_round_ps_nearest = map_lanes round_nearest_even"
definition mm_cvttps_epi32 :: "v4 \<Rightarrow> v4" where "mm_cvttps_epi32 = map_lanes cvtt"

text \<open>\<^verbatim>\<open>_mm_hadd_ps (a, b)\<close>.\<close>

definition mm_hadd_ps :: "v4 \<Rightarrow> v4 \<Rightarrow> v4" where
  "mm_hadd_ps a b = V4 (fadd (lane a 0) (lane a 1)) (fadd (lane a 2) (lane a 3))
                       (fadd (lane b 0) (lane b 1)) (fadd (lane b 2) (lane b 3))"

text \<open>\<^verbatim>\<open>_mm_dp_ps (a, b, imm)\<close>: bits 4..7 of \<open>imm\<close> choose the products that enter the
  sum (the others are +0.0), bits 0..3 the lanes that receive it.\<close>

definition mm_dp_ps :: "v4 \<Rightarrow> v4 \<Rightarrow> nat \<Rightarrow> v4" where
  "mm_dp_ps a b imm =
     (let t = (\<lambda>i. if odd (imm div 2 ^ (4 + i)) then fmul (lane a i) (lane b i) else f_zero);
          sum = fadd (fadd (t 0) (t 1)) (fadd (t 2) (t 3))
      in SIMD_RETURN (\<lambda>i. if odd (imm div 2 ^ i) then sum else f_zero))"

section \<open>float4: arithmetic\<close>

definition float4_add :: "backend \<Rightarrow> float4 \<Rightarrow> float4 \<Rightarrow> float4" where
  "float4_add be a b = (if defined_SSE be then mm_add_ps a b
                        else SIMD_RETURN (\<lambda>i. fadd (lane a i) (lane b i)))"

definition float4_mul :: "backend \<Rightarrow> float4 \<Rightarrow> float4 \<Rightarrow> float4" where
  "float4_mul be a b = (if defined_SSE be then mm_mul_ps a b
                        else SIMD_RETURN (\<lambda>i. fmul (lane a i) (lane b i)))"

definition float4_div :: "backend \<Rightarrow> float4 \<Rightarrow> float4 \<Rightarrow> float4" where
  "float4_div be a b = (if defined_SSE be then mm_div_ps a b
                        else SIMD_RETURN (\<lambda>i. fdiv (lane a i) (lane b i)))"

text \<open>\<^verbatim>\<open>int4::int4 (const float4& f)\<close>.\<close>

definition int4_float4 :: "backend \<Rightarrow> float4 \<Rightarrow> int4" where
  "int4_float4 be f = (if defined_SSE be then mm_cvttps_epi32 f
                       else SIMD_RETURN (\<lambda>i. cvtt (lane f i)))"

definition vreduce_add :: "backend \<Rightarrow> float4 \<Rightarrow> float4" where
  "vreduce_add be v =
     (if 3 \<le> OIIO_SIMD_SSE be then
        (let ab_cd = mm_hadd_ps v v; abcd = mm_hadd_ps ab_cd ab_cd in abcd)
      else if defined_SSE be then
        (let ab_ab_cd_cd = float4_add be (float4_shuffle be 1 0 3 2 v) v;
             cd_cd_ab_ab = float4_shuffle be 2 3 0 1 ab_ab_cd_cd;
             abcd = float4_add be ab_ab_cd_cd cd_cd_ab_ab
         in abcd)
      else float4_float be (fadd (fadd (fadd (lane v 0) (lane v 1)) (lane v 2)) (lane v 3)))"

text \<open>\<^verbatim>\<open>_mm_cvtss_f32\<close> reads lane 0.\<close>

definition reduce_add :: "backend \<Rightarrow> float4 \<Rightarrow> w32" where
  "reduce_add be v =
     (if defined_SSE be then lane (vreduce_add be v) 0
      else fadd (fadd (fadd (lane v 0) (lane v 1)) (lane v 2)) (lane v 3))"

definition safe_div :: "backend \<Rightarrow> float4 \<Rightarrow> float4 \<Rightarrow> float4" where
  "safe_div be a b =
     (if defined_SSE be then blend0not be (float4_div be a b) (float4_eq be b (float4_Zero be))
      else float4_float4 be
             (if f_eq (lane b 0) f_zero then f_zero else fdiv (lane a 0) (lane b 0))
             (if f_eq (lane b 1) f_zero then f_zero else fdiv (lane a 1) (lane b 1))
             (if f_eq (lane b 2) f_zero then f_zero else fdiv (lane a 2) (lane b 2))
             (if f_eq (lane b 3) f_zero then f_zero else fdiv (lane a 3) (lane b 3)))"

definition float4_floor :: "backend \<Rightarrow> float4 \<Rightarrow> float4" where
  "float4_floor be a =
     (if 4 \<le> OIIO_SIMD_SSE be then mm_floor_ps a
      else float4_float4 be (floorf (lane a 0)) (floorf (lane a 1))
                            (floorf (lane a 2)) (floorf (lane a 3)))"

definition float4_round :: "backend \<Rightarrow> float4 \<Rightarrow> float4" where
  "float4_round be a =
     (if 4 \<le> OIIO_SIMD_SSE be then mm_round_ps_nearest a
      else float4_float4 be (roundf (lane a 0)) (roundf (lane a 1))
                            (roundf (lane a 2)) (roundf (lane a 3)))"

definition floori :: "backend \<Rightarrow> float4 \<Rightarrow> int4" where
  "floori be a =
     (if 4 \<le> OIIO_SIMD_SSE be then int4_float4 be (float4_floor be a)
      else if defined_SSE be then
        (let i = int4_float4 be a;
             isneg = bitcast_to_int4 be (float4_lt be a (float4_Zero be))
         in int4_add be i isneg)
      else int4_int4 be (cvtt (floorf (lane a 0))) (cvtt (floorf (lane a 1)))
                        (cvtt (floorf (lane a 2))) (cvtt (floorf (lane a 3))))"

definition rint :: "backend \<Rightarrow> float4 \<Rightarrow> int4" where
  "rint be a = int4_float4 be (float4_round be a)"

definition float4_sqrt :: "backend \<Rightarrow> float4 \<Rightarrow> float4" where
  "float4_sqrt be a =
     (if defined_SSE be then mm_sqrt_ps a
      else float4_float4 be (fsqrt (lane a 0)) (fsqrt (lane a 1))
                            (fsqrt (lane a 2)) (fsqrt (lane a 3)))"

text \<open>
  \<^verbatim>\<open>rsqrt_fast\<close>. \<^verbatim>\<open>_mm_rsqrt_ps\<close> is an approximation whose bits the instruction set
  does not fix (only a bound on the relative error); it is the parameter \<open>rsqrtps\<close>.
\<close>

definition rsqrt_fast :: "backend \<Rightarrow> (w32 \<Rightarrow> w32) \<Rightarrow> float4 \<Rightarrow> float4" where
  "rsqrt_fast be rsqrtps a =
     (if defined_SSE be then map_lanes rsqrtps a
      else float4_float4 be (fdiv f_one (fsqrt (lane a 0))) (fdiv f_one (fsqrt (lane a 1)))
                            (fdiv f_one (fsqrt (lane a 2))) (fdiv f_one (fsqrt (lane a 3))))"

section \<open>float3\<close>

text \<open>\<^verbatim>\<open>float3\<close> derives from \<^verbatim>\<open>float4\<close>; a \<^verbatim>\<open>float3\<close> argument of a \<^verbatim>\<open>float4\<close>
  function is the same four lanes.\<close>

definition float3_load :: "backend \<Rightarrow> w32 \<Rightarrow> float3" where
  "float3_load be val = float4_load4 be val val val f_zero"

definition float3_float :: "backend \<Rightarrow> w32 \<Rightarrow> float3" where
  "float3_float be a = float3_load be a"

definition float3_float3 :: "backend \<Rightarrow> w32 \<Rightarrow> w32 \<Rightarrow> w32 \<Rightarrow> float3" where
  "float3_float3 be a b c = float4_load4 be a b c f_zero"

text \<open>\<^verbatim>\<open>explicit float3 (const float4 &other)\<close>: the register as it is with SSE;
  \<^verbatim>\<open>SIMD_CONSTRUCT_PAD\<close> and \<^verbatim>\<open>m_val[3] = 0.0f\<close> otherwise.\<close>

definition float3_float4 :: "backend \<Rightarrow> float4 \<Rightarrow> float3" where
  "float3_float4 be other =
     (if defined_SSE be then other
      else V4 (lane other 0) (lane other 1) (lane other 2) f_zero)"

definition float3_Zero :: "backend \<Rightarrow> float3" where
  "float3_Zero be = float3_float4 be (float4_Zero be)"

definition float3_mul :: "backend \<Rightarrow> float3 \<Rightarrow> float3 \<Rightarrow> float3" where
  "float3_mul be a b = float3_float4 be (float4_mul be a b)"

definition float3_div :: "backend \<Rightarrow> float3 \<Rightarrow> float3 \<Rightarrow> float3" where
  "float3_div be a b = float3_float4 be (float4_div be a (xyz1 be b))"

text \<open>\<^verbatim>\<open>float dot (const float3 &a, const float3 &b)\<close>.\<close>

definition float3_dot :: "backend \<Rightarrow> float3 \<Rightarrow> float3 \<Rightarrow> w32" where
  "float3_dot be a b =
     (if 4 \<le> OIIO_SIMD_SSE be then lane (mm_dp_ps a b 0x77) 0
      else reduce_add be (float3_mul be a b))"

text \<open>\<^verbatim>\<open>float3 vdot3 (const float3 &a, const float3 &b)\<close>.\<close>

definition float3_vdot3 :: "backend \<Rightarrow> float3 \<Rightarrow> float3 \<Rightarrow> float3" where
  "float3_vdot3 be a b =
     (if 4 \<le> OIIO_SIMD_SSE be then float3_float4 be (mm_dp_ps a b 0x77)
      else float3_float4 be (xyz0 be (vreduce_add be (xyz0 be (float3_mul be a b)))))"

text \<open>\<^verbatim>\<open>hdiv\<close>.\<close>

definition hdiv :: "backend \<Rightarrow> float4 \<Rightarrow> float3" where
  "hdiv be a =
     (if defined_SSE be then
        float3_float4 be (xyz0 be (safe_div be a (float4_shuffle1 be 3 a)))
      else (let d = lane a 3 in
            if f_eq d f_zero then float3_float be f_zero
            else float3_float3 be (fdiv (lane a 0) d) (fdiv (lane a 1) d) (fdiv (lane a 2) d)))"

text \<open>\<^verbatim>\<open>normalized\<close>. In the scalar build \<^verbatim>\<open>(*this) / sqrtf(len2)\<close> is the \<^verbatim>\<open>float3\<close>
  division by \<^verbatim>\<open>float3(sqrtf(len2))\<close>.\<close>

definition normalized :: "backend \<Rightarrow> float3 \<Rightarrow> float3" where
  "normalized be this =
     (if defined_SSE be then
        (let len2 = float3_vdot3 be this this
         in float3_float4 be (safe_div be this (float4_sqrt be len2)))
      else (let len2 = float3_dot be this this
            in if f_lt f_zero len2 then float3_div be this (float3_float be (fsqrt len2))
               else float3_Zero be))"

definition normalized_fast :: "backend \<Rightarrow> (w32 \<Rightarrow> w32) \<Rightarrow> float3 \<Rightarrow> float3" where
  "normalized_fast be rsqrtps this =
     (if defined_SSE be then
        (let len2 = float3_vdot3 be this this;
             invlen = blend0not be (rsqrt_fast be rsqrtps len2)
                        (float4_eq be len2 (float4_Zero be))
         in float3_float4 be (float4_mul be this invlen))
      else (let len2 = float3_dot be this this
            in if f_lt f_zero len2 then float3_div be this (float3_float be (fsqrt len2))
               else float3_Zero be))"

section \<open>matrix44\<close>








text \<open>
  The mask values the listed producers build: the constructors and \<^verbatim>\<open>load\<close>, the
  constants, the logical and comparison operators, \<^verbatim>\<open>shuffle\<close>, \<^verbatim>\<open>insert\<close>, and
  the members that assign to \<^verbatim>\<open>*this\<close>. The raw register constructor and writes through
  \<^verbatim>\<open>int& operator[]\<close> are not among them.
\<close>

inductive produced :: "backend \<Rightarrow> mask4 \<Rightarrow> bool" for be :: backend where
  p_bool: "produced be (mask4_bool be a)"
| p_bool4: "produced be (mask4_bool4 be a b c d)"
| p_int4: "produced be (mask4_int4 be ival)"
| p_load: "produced be (mask4_load be a)"
| p_load4: "produced be (mask4_load4 be a b c d)"
| p_False: "produced be (mask4_False be)"
| p_True: "produced be (mask4_True be)"
| p_clear: "produced be (mask4_clear be m)"
| p_assign_bool: "produced be (mask4_assign_bool be m a)"
| p_assign: "produced be m' \<Longrightarrow> produced be (mask4_assign be m m')"
| p_not: "produced be m \<Longrightarrow> produced be (mask4_not be m)"
| p_and: "produced be m \<Longrightarrow> produced be m' \<Longrightarrow> produced be (mask4_and be m m')"
| p_or: "produced be m \<Longrightarrow> produced be m' \<Longrightarrow> produced be (mask4_or be m m')"
| p_xor: "produced be m \<Longrightarrow> produced be m' \<Longrightarrow> produced be (mask4_xor be m m')"
| p_and_assign: "produced be m \<Longrightarrow> produced be m' \<Longrightarrow> produced be (mask4_and_assign be m m')"
| p_or_assign: "produced be m \<Longrightarrow> produced be m' \<Longrightarrow> produced be (mask4_or_assign be m m')"
| p_xor_assign: "produced be m \<Longrightarrow> produced be m' \<Longrightarrow> produced be (mask4_xor_assign be m m')"
| p_compl: "produced be m \<Longrightarrow> produced be (mask4_compl be m)"
| p_eq: "produced be m \<Longrightarrow> produced be m' \<Longrightarrow> produced be (mask4_eq be m m')"
| p_ne: "produced be m \<Longrightarrow> produced be m' \<Longrightarrow> produced be (mask4_ne be m m')"
| p_int4_eq: "produced be (int4_eq be x y)"
| p_int4_ne: "produced be (int4_ne be x y)"
| p_int4_lt: "produced be (int4_lt be x y)"
| p_int4_gt: "produced be (int4_gt be x y)"
| p_int4_ge: "produced be (int4_ge be x y)"
| p_int4_le: "produced be (int4_le be x y)"
| p_float4_eq: "produced be (float4_eq be x y)"
| p_float4_ne: "produced be (float4_ne be x y)"
| p_float4_lt: "produced be (float4_lt be x y)"
| p_float4_gt: "produced be (float4_gt be x y)"
| p_float4_ge: "produced be (float4_ge be x y)"
| p_float4_le: "produced be (float4_le be x y)"
| p_shuffle: "produced be m \<Longrightarrow> i0 < 4 \<Longrightarrow> i1 < 4 \<Longrightarrow> i2 < 4 \<Longrightarrow> i3 < 4
              \<Longrightarrow> produced be (mask4_shuffle be i0 i1 i2 i3 m)"
| p_shuffle1: "produced be m \<Longrightarrow> i < 4 \<Longrightarrow> produced be (mask4_shuffle1 be i m)"
| p_insert: "produced be m \<Longrightarrow> i < 4 \<Longrightarrow> produced be (mask4_insert be i m val)"

section \<open>Properties\<close>

subsection \<open>Lanes\<close>

lemma lt4_cases: "k < 4 \<Longrightarrow> k = 0 \<or> k = 1 \<or> k = 2 \<or> k = (3::nat)"
  by arith

lemma lane_SIMD_RETURN: "k < 4 \<Longrightarrow> lane (SIMD_RETURN f) k = f k"
  using lt4_cases[of k] by (auto simp add: SIMD_RETURN_def)

lemma lane_map2: "k < 4 \<Longrightarrow> lane (map2_lanes f a b) k = f (lane a k) (lane b k)"
  by (simp add: map2_lanes_def lane_SIMD_RETURN)

lemma lane_splat: "lane (splat x) k = x"
  by (simp add: splat_def)

subsection \<open>Canonical masks\<close>

lemma canonical_V4:
  "canonical (V4 a b c d)
   = (canonical_lane a \<and> canonical_lane b \<and> canonical_lane c \<and> canonical_lane d)"
  by (simp add: canonical_def)

lemma canonical_lane_simps:
  "canonical_lane 0" "canonical_lane (- 1)" "canonical_lane (bool_lane c)"
  "canonical_lane (if c then - 1 else 0)"
  by (simp_all add: canonical_lane_def bool_lane_def)

lemma canonical_lane_ops:
  "canonical_lane x \<Longrightarrow> canonical_lane y \<Longrightarrow> canonical_lane (x AND y)"
  "canonical_lane x \<Longrightarrow> canonical_lane y \<Longrightarrow> canonical_lane (x OR y)"
  "canonical_lane x \<Longrightarrow> canonical_lane y \<Longrightarrow> canonical_lane (x XOR y)"
  "canonical_lane x \<Longrightarrow> canonical_lane (NOT x)"
  "canonical_lane x \<Longrightarrow> canonical_lane (x XOR (- 1))"
  by (auto simp add: canonical_lane_def)

lemma canonical_lane_lane: "canonical m \<Longrightarrow> canonical_lane (lane m i)"
  by (cases m) (simp add: canonical_def)

lemma canonical_lane_cases: "canonical m \<Longrightarrow> lane m k = 0 \<or> lane m k = - 1"
  by (cases m) (simp add: canonical_def canonical_lane_def)

lemma canonical_SIMD_RETURN:
  "canonical (SIMD_RETURN f)
   = (canonical_lane (f 0) \<and> canonical_lane (f 1) \<and> canonical_lane (f 2) \<and> canonical_lane (f 3))"
  by (simp add: SIMD_RETURN_def canonical_def)

lemma canonical_splat: "canonical (splat x) = canonical_lane x"
  by (simp add: splat_def canonical_V4)

lemma canonical_map2: "(\<And>x y. canonical_lane (f x y)) \<Longrightarrow> canonical (map2_lanes f a b)"
  by (simp add: map2_lanes_def canonical_SIMD_RETURN)

lemma canonical_map2_pres:
  "(\<And>x y. canonical_lane x \<Longrightarrow> canonical_lane y \<Longrightarrow> canonical_lane (f x y))
   \<Longrightarrow> canonical a \<Longrightarrow> canonical b \<Longrightarrow> canonical (map2_lanes f a b)"
  by (simp add: map2_lanes_def canonical_SIMD_RETURN canonical_lane_lane)

lemma cmpeq8_self: "mm_cmpeq_epi8 a a = splat (- 1)"
  by (simp add: mm_cmpeq_epi8_def map2_lanes_def SIMD_RETURN_def splat_def)

lemma canonical_load: "canonical (mask4_load be a)" "canonical (mask4_load4 be a b c d)"
  by (simp_all add: mask4_load_def mask4_load4_def canonical_splat canonical_V4
      canonical_lane_simps)

lemma canonical_True: "canonical (mask4_True be)"
  by (simp add: mask4_True_def cmpeq8_self mask4_bool_def canonical_load canonical_splat
      canonical_lane_simps)

lemma canonical_False: "canonical (mask4_False be)"
  by (simp add: mask4_False_def mm_setzero_def mask4_bool_def canonical_load canonical_splat
      canonical_lane_simps)

lemma canonical_not: "canonical a \<Longrightarrow> canonical (mask4_not be a)"
  by (simp add: mask4_not_def mm_xor_def canonical_map2_pres canonical_True canonical_lane_ops
      canonical_SIMD_RETURN canonical_lane_lane)

lemma canonical_and: "canonical a \<Longrightarrow> canonical b \<Longrightarrow> canonical (mask4_and be a b)"
  by (simp add: mask4_and_def mm_and_def canonical_map2_pres canonical_lane_ops
      canonical_SIMD_RETURN canonical_lane_lane)

lemma canonical_or: "canonical a \<Longrightarrow> canonical b \<Longrightarrow> canonical (mask4_or be a b)"
  by (simp add: mask4_or_def mm_or_def canonical_map2_pres canonical_lane_ops
      canonical_SIMD_RETURN canonical_lane_lane)

lemma canonical_xor: "canonical a \<Longrightarrow> canonical b \<Longrightarrow> canonical (mask4_xor be a b)"
  by (simp add: mask4_xor_def mm_xor_def canonical_map2_pres canonical_lane_ops
      canonical_SIMD_RETURN canonical_lane_lane)

lemma canonical_assign: "canonical b \<Longrightarrow> canonical (mask4_assign be a b)"
  by (simp add: mask4_assign_def canonical_SIMD_RETURN canonical_lane_lane)

lemma canonical_compl: "canonical a \<Longrightarrow> canonical (mask4_compl be a)"
  by (simp add: mask4_compl_def cmpeq8_self mm_xor_def map2_lanes_def splat_def
      canonical_lane_ops canonical_SIMD_RETURN canonical_lane_lane)

lemma canonical_eq: "canonical (mask4_eq be a b)"
  by (simp add: mask4_eq_def mm_cmpeq_epi32_def canonical_map2 canonical_lane_simps
      canonical_SIMD_RETURN)

lemma canonical_ne: "canonical a \<Longrightarrow> canonical b \<Longrightarrow> canonical (mask4_ne be a b)"
  by (simp add: mask4_ne_def mm_xor_def canonical_map2_pres canonical_lane_ops
      canonical_SIMD_RETURN canonical_lane_simps)

lemma canonical_int4_cmp:
  "canonical (int4_eq be x y)" "canonical (int4_lt be x y)" "canonical (int4_gt be x y)"
  by (simp_all add: int4_eq_def int4_lt_def int4_gt_def mm_cmpeq_epi32_def mm_cmplt_epi32_def
      mm_cmpgt_epi32_def canonical_map2 canonical_lane_simps canonical_SIMD_RETURN)

lemma canonical_int4_cmp2:
  "canonical (int4_ne be x y)" "canonical (int4_ge be x y)" "canonical (int4_le be x y)"
  by (simp_all add: int4_ne_def int4_ge_def int4_le_def canonical_not canonical_int4_cmp)

lemma canonical_mask4_int4: "canonical (mask4_int4 be ival)"
  by (simp add: mask4_int4_def canonical_int4_cmp2 canonical_SIMD_RETURN canonical_lane_simps)

lemma canonical_float4_cmp:
  "canonical (float4_eq be x y)" "canonical (float4_ne be x y)" "canonical (float4_lt be x y)"
  "canonical (float4_gt be x y)" "canonical (float4_ge be x y)" "canonical (float4_le be x y)"
  by (simp_all add: float4_eq_def float4_ne_def float4_lt_def float4_gt_def float4_ge_def
      float4_le_def mm_cmpeq_ps_def mm_cmpneq_ps_def mm_cmplt_ps_def mm_cmpgt_ps_def
      mm_cmpge_ps_def mm_cmple_ps_def canonical_map2 canonical_lane_simps canonical_SIMD_RETURN)

lemma canonical_shuffle: "canonical a \<Longrightarrow> canonical (mask4_shuffle be i0 i1 i2 i3 a)"
  by (simp add: mask4_shuffle_def shuffle_sse_def canonical_V4 canonical_lane_lane
      mask4_bool4_def canonical_load)

lemma canonical_set_lane: "canonical a \<Longrightarrow> canonical_lane v \<Longrightarrow> canonical (set_lane a i v)"
  by (cases a) (simp add: canonical_V4)

lemma canonical_insert: "canonical a \<Longrightarrow> canonical (mask4_insert be i a val)"
  by (simp add: mask4_insert_def mask4_set_def canonical_set_lane canonical_lane_simps)

text \<open>
  C2 (as amended). On every backend, a mask built by the bool and int4 constructors,
  \<^verbatim>\<open>load\<close>, \<^verbatim>\<open>True\<close>/\<^verbatim>\<open>False\<close>, \<^verbatim>\<open>clear\<close>, the assignments, the logical operators
  \<^verbatim>\<open>! & | ^ ~\<close> and their assigning forms, the comparisons of mask4, int4 and float4,
  \<^verbatim>\<open>shuffle\<close> and \<^verbatim>\<open>insert\<close> has every lane all zeros or all ones. Writes through the
  reference returned by \<^verbatim>\<open>int& operator[]\<close> and the raw register constructor are left out:
  they store whatever bits they are given.
\<close>

theorem produced_canonical: "produced be m \<Longrightarrow> canonical m"
proof (induction rule: produced.induct)
  case (p_bool a) show ?case by (simp add: mask4_bool_def canonical_load)
next
  case (p_bool4 a b c d) show ?case by (simp add: mask4_bool4_def canonical_load)
next
  case (p_clear m) show ?case
    by (simp add: mask4_clear_def mm_setzero_def canonical_splat canonical_load
        canonical_lane_simps)
next
  case (p_assign_bool m a) show ?case by (simp add: mask4_assign_bool_def canonical_load)
next
  case (p_and_assign m m') then show ?case
    by (simp add: mask4_and_assign_def canonical_assign canonical_and)
next
  case (p_or_assign m m') then show ?case
    by (simp add: mask4_or_assign_def canonical_assign canonical_or)
next
  case (p_xor_assign m m') then show ?case
    by (simp add: mask4_xor_assign_def canonical_assign canonical_xor)
next
  case (p_shuffle1 m i) then show ?case by (simp add: mask4_shuffle1_def canonical_shuffle)
qed (simp_all add: canonical_load canonical_True canonical_False canonical_not canonical_and
      canonical_or canonical_xor canonical_assign canonical_compl canonical_eq canonical_ne
      canonical_int4_cmp canonical_int4_cmp2 canonical_mask4_int4 canonical_float4_cmp
      canonical_shuffle canonical_insert)

theorem produced_canonical_witness:
  "produced SSE2 (mask4_and SSE2 (mask4_bool4 SSE2 True False True False)
                                 (mask4_not SSE2 (float4_lt SSE2 (V4 0 0 0 0) (V4 1 1 0 0))))
   \<and> canonical (mask4_and SSE2 (mask4_bool4 SSE2 True False True False)
                                 (mask4_not SSE2 (float4_lt SSE2 (V4 0 0 0 0) (V4 1 1 0 0))))"
  using produced_canonical [OF p_and [OF p_bool4 p_not [OF p_float4_lt]], of SSE2 True False True False
      "V4 0 0 0 0" "V4 1 1 0 0"]
  by (simp add: p_and p_bool4 p_not p_float4_lt)

text \<open>
  C2 as stated fails: \<^verbatim>\<open>int& operator[] (int i)\<close> is a public member, and storing 1
  through it into lane 0 of \<^verbatim>\<open>mask4(false)\<close> leaves a lane that is neither all zeros nor
  all ones. The bitwise operators keep such a lane as it is: \<^verbatim>\<open>&\<close> with \<^verbatim>\<open>mask4(true)\<close>
  still has lane 0 equal to 1.
\<close>

theorem mask4_index_write_counterexample:
  "canonical (mask4_bool SSE2 False) \<and> \<not> canonical (mask4_set (mask4_bool SSE2 False) 0 1)
   \<and> \<not> canonical (mask4_and SSE2 (mask4_set (mask4_bool SSE2 False) 0 1) (mask4_bool SSE2 True))"
  by (simp add: mask4_bool_def mask4_load_def mask4_set_def splat_def canonical_def
      canonical_lane_def mask4_and_def defined_SSE_def mm_and_def map2_lanes_def SIMD_RETURN_def)

subsection \<open>Blend and select\<close>

lemma byte_select_canonical: "byte_select 0 = 0" "byte_select (- 1) = - 1"
  by (simp_all add: byte_select_def)

lemma movemask_bit:
  assumes "k < 4"
  shows "odd (mm_movemask_ps m div 2 ^ k) = bit (lane m k) 31"
proof -
  obtain a b c d where m: "m = V4 a b c d" by (cases m)
  consider "k = 0" | "k = 1" | "k = 2" | "k = 3" using assms by arith
  then show ?thesis
  proof cases
    case 1 then show ?thesis by (simp add: m mm_movemask_ps_def)
  next
    case 2 then show ?thesis
      by (cases "bit a 31") (simp_all add: m mm_movemask_ps_def)
  next
    case 3 then show ?thesis
      by (cases "bit a 31"; cases "bit b 31") (simp_all add: m mm_movemask_ps_def)
  next
    case 4 then show ?thesis
      by (cases "bit a 31"; cases "bit b 31"; cases "bit c 31")
         (simp_all add: m mm_movemask_ps_def)
  qed
qed

lemma mask4_get_canonical:
  assumes "canonical m" "k < 4"
  shows "mask4_get be m k = (lane m k = - 1)"
proof -
  have "lane m k = 0 \<or> lane m k = - 1"
    using assms(1) by (rule canonical_lane_cases)
  then show ?thesis
    by (auto simp add: mask4_get_def movemask_bit[OF assms(2)])
qed

lemma blend_lane_sel:
  assumes "x = 0 \<or> x = (- 1 :: w32)"
  shows "(x AND b) OR (NOT x AND a) = (if x = - 1 then b else a)"
    "(if bit x 31 then b else a) = (if x = - 1 then b else a)"
    "(b AND byte_select x) OR (a AND NOT (byte_select x)) = (if x = - 1 then b else a)"
  using assms by (auto simp add: byte_select_canonical)

lemma blend_lane:
  assumes "canonical msk" "k < 4"
  shows "lane (blend be a b msk) k = (if mask4_get be msk k then lane b k else lane a k)"
proof -
  note c = canonical_lane_cases[OF assms(1), of k]
  have g: "\<And>j. j < 4 \<Longrightarrow> mask4_get be msk j = (lane msk j = - 1)"
    by (rule mask4_get_canonical[OF assms(1)])
  show ?thesis
  proof (cases "4 \<le> OIIO_SIMD_SSE be")
    case True
    then show ?thesis using assms(2) c
      by (simp add: blend_def mm_blendv_ps_def lane_SIMD_RETURN g blend_lane_sel)
  next
    case False
    show ?thesis
    proof (cases "defined_SSE be")
      case True
      then show ?thesis using assms(2) c False
        by (simp add: blend_def mm_or_def mm_and_def mm_andnot_def lane_map2 g blend_lane_sel)
    next
      case False
      then have n4: "\<not> 4 \<le> OIIO_SIMD_SSE be" by (simp add: defined_SSE_def)
      have "blend be a b msk = V4 (if lane msk 0 = - 1 then lane b 0 else lane a 0)
          (if lane msk 1 = - 1 then lane b 1 else lane a 1)
          (if lane msk 2 = - 1 then lane b 2 else lane a 2)
          (if lane msk 3 = - 1 then lane b 3 else lane a 3)"
        using False n4 by (simp add: blend_def float4_float4_def float4_load4_def g)
      then show ?thesis using lt4_cases[OF assms(2)] g by auto
    qed
  qed
qed

lemma int4_blend_lane:
  assumes "canonical msk" "k < 4"
  shows "lane (int4_blend be a b msk) k = (if mask4_get be msk k then lane b k else lane a k)"
proof -
  note c = canonical_lane_cases[OF assms(1), of k]
  have g: "\<And>j. j < 4 \<Longrightarrow> mask4_get be msk j = (lane msk j = - 1)"
    by (rule mask4_get_canonical[OF assms(1)])
  show ?thesis
  proof (cases "4 \<le> OIIO_SIMD_SSE be")
    case True
    then show ?thesis using assms(2) c
      by (simp add: int4_blend_def mm_blendv_epi8_def lane_SIMD_RETURN g blend_lane_sel)
  next
    case False
    then show ?thesis using assms(2) c
      by (auto simp add: int4_blend_def mm_or_def mm_and_def mm_andnot_def lane_map2
          lane_SIMD_RETURN g)
  qed
qed

text \<open>
  C5. On every backend, for a canonical mask and every lane \<open>i\<close> in 0..3,
  \<^verbatim>\<open>blend(a,b,mask)[i]\<close> is \<^verbatim>\<open>mask[i] ? b[i] : a[i]\<close>, for float4 and for int4, and
  \<^verbatim>\<open>select(mask,a,b)\<close> is \<^verbatim>\<open>blend(b,a,mask)\<close>, lane for lane.
\<close>

theorem blend_select_lanes:
  assumes "canonical msk" "i < 4"
  shows "lane (blend be a b msk) i = (if mask4_get be msk i then lane b i else lane a i)
       \<and> lane (int4_blend be a b msk) i = (if mask4_get be msk i then lane b i else lane a i)
       \<and> lane (select be msk a b) i = lane (blend be b a msk) i
       \<and> lane (int4_select be msk a b) i = lane (int4_blend be b a msk) i
       \<and> lane (select be msk a b) i = (if mask4_get be msk i then lane a i else lane b i)
       \<and> lane (int4_select be msk a b) i = (if mask4_get be msk i then lane a i else lane b i)"
  using assms by (simp add: blend_lane int4_blend_lane select_def int4_select_def)

theorem blend_select_lanes_witness:
  "canonical (mask4_bool4 SSE4 True False True False) \<and> (2::nat) < 4
   \<and> lane (blend SSE4 (V4 1 2 3 4) (V4 5 6 7 8) (mask4_bool4 SSE4 True False True False)) 2 = 7
   \<and> lane (int4_blend SSE4 (V4 1 2 3 4) (V4 5 6 7 8) (mask4_bool4 SSE4 True False True False)) 2 = 7
   \<and> lane (select SSE4 (mask4_bool4 SSE4 True False True False) (V4 1 2 3 4) (V4 5 6 7 8)) 2 = 3"
proof -
  have c: "canonical (mask4_bool4 SSE4 True False True False)"
    by (simp add: mask4_bool4_def canonical_load)
  have g: "mask4_get SSE4 (mask4_bool4 SSE4 True False True False) 2"
    by (simp add: mask4_bool4_def mask4_load4_def mask4_get_def defined_SSE_def
        mm_movemask_ps_def)
  have l: "(2::nat) < 4" by simp
  note t = blend_select_lanes [OF c l, of SSE4 "V4 1 2 3 4" "V4 5 6 7 8"]
  have "lane (blend SSE4 (V4 1 2 3 4) (V4 5 6 7 8) (mask4_bool4 SSE4 True False True False)) 2 = 7"
    using t [THEN conjunct1] g by simp
  moreover have "lane (int4_blend SSE4 (V4 1 2 3 4) (V4 5 6 7 8)
      (mask4_bool4 SSE4 True False True False)) 2 = 7"
    using t [THEN conjunct2, THEN conjunct1] g by simp
  moreover have "lane (select SSE4 (mask4_bool4 SSE4 True False True False)
      (V4 1 2 3 4) (V4 5 6 7 8)) 2
      = (if mask4_get SSE4 (mask4_bool4 SSE4 True False True False) 2
         then lane (V4 1 2 3 4) 2 else lane (V4 5 6 7 8) 2)"
    using t by blast
  then have "lane (select SSE4 (mask4_bool4 SSE4 True False True False)
      (V4 1 2 3 4) (V4 5 6 7 8)) 2 = 3"
    using g by simp
  ultimately show ?thesis using c l by blast
qed

subsection \<open>Narrowing stores\<close>

lemma num_masks: "(0xffff :: w32) = mask 16" "(0xff :: w32) = mask 8"
  by (simp_all add: mask_eq_exp_minus_1)

lemma store_ushort_sse:
  assumes "defined_SSE be"
  shows "int4_store_ushort be (V4 a b c d) = [ucast a, ucast b, ucast c, ucast d]"
  using assms
  apply (simp add: int4_store_ushort_def Let_def int4_and_def int4_load_values_def m_val_def
      int4_int_def int4_load_def int4_or_def mm_and_def mm_or_def map2_lanes_def SIMD_RETURN_def
      splat_def mm_shufflelo_epi16_def mm_shufflehi_epi16_def shuffle_sse_def
      mm_storel_pd_u16_def hw_def num_masks join16_def)
  apply (intro conjI; rule bit_word_eqI; auto simp add: bit_simps dest: bit_imp_le_length)
  done

lemma store_ushort_all:
  "int4_store_ushort be (V4 a b c d) = [ucast a, ucast b, ucast c, ucast d]"
  by (cases "defined_SSE be") (simp_all add: store_ushort_sse, simp add: int4_store_ushort_def)

lemma store_uchar_sse:
  assumes "defined_SSE be"
  shows "int4_store_uchar be (V4 a b c d) = [ucast a, ucast b, ucast c, ucast d]"
  using assms
  apply (simp add: int4_store_uchar_def Let_def int4_and_def int4_load_values_def m_val_def
      int4_int_def int4_load_def int4_or_def int4_shl_def mm_and_def mm_or_def map2_lanes_def
      SIMD_RETURN_def splat_def shuffle_sse_def store_int_u8_def num_masks)
  apply (intro conjI; rule bit_word_eqI; auto simp add: bit_simps dest: bit_imp_le_length)
  done

lemma store_uchar_all:
  "int4_store_uchar be (V4 a b c d) = [ucast a, ucast b, ucast c, ucast d]"
  by (cases "defined_SSE be") (simp_all add: store_uchar_sse, simp add: int4_store_uchar_def)

lemma uint_ucast_sint16: "uint (ucast (w :: w32) :: 16 word) = sint w mod 2 ^ 16"
proof -
  have "sint w mod 2 ^ 16 = take_bit 16 (signed_take_bit 31 (uint w))"
    by (simp add: take_bit_eq_mod sint_uint)
  also have "\<dots> = take_bit 16 (uint w)"
    by (simp add: take_bit_signed_take_bit)
  finally show ?thesis
    by (simp add: unsigned_ucast_eq)
qed

lemma uint_ucast_sint8: "uint (ucast (w :: w32) :: 8 word) = sint w mod 2 ^ 8"
proof -
  have "sint w mod 2 ^ 8 = take_bit 8 (signed_take_bit 31 (uint w))"
    by (simp add: take_bit_eq_mod sint_uint)
  also have "\<dots> = take_bit 8 (uint w)"
    by (simp add: take_bit_signed_take_bit)
  finally show ?thesis
    by (simp add: unsigned_ucast_eq)
qed

text \<open>
  C10. On every backend the store to \<^verbatim>\<open>unsigned short*\<close> writes four values, the
  \<open>k\<close>-th being lane \<open>k\<close> (read as a signed \<^verbatim>\<open>int\<close>) reduced modulo \<open>2^16\<close>, and the store
  to \<^verbatim>\<open>unsigned char*\<close> writes lane \<open>k\<close> reduced modulo \<open>2^8\<close>: the low bits, with no
  clamping.
\<close>

theorem int4_store_narrow_truncates:
  assumes "k < 4"
  shows "length (int4_store_ushort be v) = 4 \<and> length (int4_store_uchar be v) = 4
       \<and> uint (int4_store_ushort be v ! k) = sint (lane v k) mod 2 ^ 16
       \<and> uint (int4_store_uchar be v ! k) = sint (lane v k) mod 2 ^ 8"
proof -
  obtain a b c d where v: "v = V4 a b c d" by (cases v)
  show ?thesis using lt4_cases[OF assms]
    by (auto simp add: v store_ushort_all store_uchar_all uint_ucast_sint16 uint_ucast_sint8)
qed

theorem int4_store_narrow_truncates_witness:
  "(1::nat) < 4
   \<and> uint (int4_store_ushort SSE2 (V4 5 (- 2) 70000 300) ! 1) = 65534
   \<and> uint (int4_store_uchar SSE2 (V4 5 (- 2) 70000 300) ! 1) = 254
   \<and> sint (lane (V4 5 (- 2) 70000 300) 1) = - 2"
  using int4_store_narrow_truncates [of 1 SSE2 "V4 5 (- 2) 70000 300"]
  by simp

subsection \<open>Lane-wise float operations\<close>

lemma lane_map: "k < 4 \<Longrightarrow> lane (map_lanes f a) k = f (lane a k)"
  by (simp add: map_lanes_def lane_SIMD_RETURN)

lemma lane_float4_Zero: "lane (float4_Zero be) k = f_zero"
  by (simp add: float4_Zero_def mm_setzero_def lane_splat float4_float_def float4_load_def
      SIMD_RETURN_def f_zero_def)

lemma float4_Zero_eq: "float4_Zero be = V4 0 0 0 0"
  by (simp add: float4_Zero_def mm_setzero_def splat_def float4_float_def float4_load_def
      SIMD_RETURN_def f_zero_def)

lemma lane_float4_div: "k < 4 \<Longrightarrow> lane (float4_div be a b) k = fdiv (lane a k) (lane b k)"
  by (simp add: float4_div_def mm_div_ps_def lane_map2 lane_SIMD_RETURN)

lemma lane_float4_mul: "k < 4 \<Longrightarrow> lane (float4_mul be a b) k = fmul (lane a k) (lane b k)"
  by (simp add: float4_mul_def mm_mul_ps_def lane_map2 lane_SIMD_RETURN)


lemma lane_float4_eq:
  "k < 4 \<Longrightarrow> lane (float4_eq be a b) k = (if f_eq (lane a k) (lane b k) then - 1 else 0)"
  by (simp add: float4_eq_def mm_cmpeq_ps_def lane_map2 lane_SIMD_RETURN bool_lane_def)

lemma lane_V4_fun: "k < 4 \<Longrightarrow> lane (V4 (f 0) (f 1) (f 2) (f 3)) k = f k"
  using lt4_cases[of k] by auto

lemma lane_blend0not:
  assumes "canonical msk" "k < 4"
  shows "lane (blend0not be a msk) k = (if mask4_get be msk k then f_zero else lane a k)"
proof -
  note c = canonical_lane_cases[OF assms(1), of k]
  have g: "\<And>j. j < 4 \<Longrightarrow> mask4_get be msk j = (lane msk j = - 1)"
    by (rule mask4_get_canonical[OF assms(1)])
  show ?thesis
  proof (cases "defined_SSE be")
    case True
    then show ?thesis using assms(2) c
      by (auto simp add: blend0not_def mm_andnot_def lane_map2 g f_zero_def)
  next
    case False
    have "blend0not be a msk = V4 (if lane msk 0 = - 1 then f_zero else lane a 0)
          (if lane msk 1 = - 1 then f_zero else lane a 1)
          (if lane msk 2 = - 1 then f_zero else lane a 2)
          (if lane msk 3 = - 1 then f_zero else lane a 3)"
      using False by (simp add: blend0not_def float4_float4_def float4_load4_def g)
    then show ?thesis using lt4_cases[OF assms(2)] g by auto
  qed
qed

lemma f_eq_sym: "f_eq a b = f_eq b a"
  by (auto simp add: f_eq_def)

lemma lane_safe_div:
  assumes "k < 4"
  shows "lane (safe_div be a b) k
         = (if f_eq (lane b k) f_zero then f_zero else fdiv (lane a k) (lane b k))"
proof (cases "defined_SSE be")
  case True
  have c: "canonical (float4_eq be b (float4_Zero be))" by (rule canonical_float4_cmp)
  have "mask4_get be (float4_eq be b (float4_Zero be)) k = f_eq (lane b k) f_zero"
    using assms by (simp add: mask4_get_canonical[OF c] lane_float4_eq lane_float4_Zero)
  then show ?thesis using True assms
    by (simp add: safe_div_def lane_blend0not[OF c] lane_float4_div)
next
  case False
  have "safe_div be a b = V4
      ((\<lambda>i. if f_eq (lane b i) f_zero then f_zero else fdiv (lane a i) (lane b i)) 0)
      ((\<lambda>i. if f_eq (lane b i) f_zero then f_zero else fdiv (lane a i) (lane b i)) 1)
      ((\<lambda>i. if f_eq (lane b i) f_zero then f_zero else fdiv (lane a i) (lane b i)) 2)
      ((\<lambda>i. if f_eq (lane b i) f_zero then f_zero else fdiv (lane a i) (lane b i)) 3)"
    using False by (simp add: safe_div_def float4_float4_def float4_load4_def)
  then show ?thesis using lt4_cases[OF assms] by auto
qed

lemma v4_eqI:
  assumes "\<And>k. k < 4 \<Longrightarrow> lane a k = lane b k"
  shows "a = b"
proof -
  obtain a0 a1 a2 a3 where a: "a = V4 a0 a1 a2 a3" by (cases a)
  obtain b0 b1 b2 b3 where b: "b = V4 b0 b1 b2 b3" by (cases b)
  from assms[of 0] assms[of 1] assms[of 2] assms[of 3] show ?thesis
    by (simp add: a b)
qed

lemma f_zero_facts:
  "\<not> is_nan f_zero" "\<not> is_inf f_zero" "is_zero f_zero" "f_eq f_zero f_zero" "is_finite f_zero"
  "\<not> f_sign f_zero"
  by (simp_all add: f_zero_def is_nan_def is_inf_def is_zero_def f_eq_def f_exp_def f_man_def
      is_finite_def f_sign_def)

text \<open>
  C1. On every backend and for every lane \<open>k\<close> in 0..3: where \<^verbatim>\<open>b[k] == 0.0f\<close>,
  \<^verbatim>\<open>safe_div(a,b)[k]\<close> is the pattern of +0.0 (not an infinity, not a NaN); elsewhere
  it is \<^verbatim>\<open>a[k] / b[k]\<close>; and \<^verbatim>\<open>safe_div(x, float4::Zero())\<close> is
  \<^verbatim>\<open>float4::Zero()\<close> for every \<open>x\<close>.
\<close>

theorem safe_div_zero_guard:
  assumes "k < 4"
  shows "(f_eq (lane b k) f_zero \<longrightarrow>
            lane (safe_div be a b) k = f_zero \<and> \<not> is_inf (lane (safe_div be a b) k)
            \<and> \<not> is_nan (lane (safe_div be a b) k))
       \<and> (\<not> f_eq (lane b k) f_zero \<longrightarrow> lane (safe_div be a b) k = fdiv (lane a k) (lane b k))
       \<and> safe_div be a (float4_Zero be) = float4_Zero be"
proof -
  have "safe_div be a (float4_Zero be) = float4_Zero be"
    by (rule v4_eqI) (simp add: lane_safe_div lane_float4_Zero f_zero_facts)
  then show ?thesis using assms
    by (simp add: lane_safe_div f_zero_facts)
qed

theorem safe_div_zero_guard_witness:
  "(1::nat) < 4
   \<and> f_eq (lane (V4 f_one 0 f_one 0x80000000) 1) f_zero
   \<and> lane (safe_div SSE2 (V4 f_one f_one f_one f_one) (V4 f_one 0 f_one 0x80000000)) 1 = f_zero
   \<and> \<not> is_nan (lane (safe_div SSE2 (V4 f_one f_one f_one f_one) (V4 f_one 0 f_one 0x80000000)) 1)
   \<and> \<not> f_eq (lane (V4 f_one 0 f_one 0x80000000) 0) f_zero
   \<and> lane (safe_div SSE2 (V4 f_one f_one f_one f_one) (V4 f_one 0 f_one 0x80000000)) 0
       = fdiv f_one f_one"
proof -
  have e: "f_eq 0 f_zero" "\<not> f_eq f_one f_zero"
    by (simp_all add: f_eq_def f_key_def is_nan_def f_exp_def f_man_def f_sign_def f_zero_def
        f_one_def)
  show ?thesis
    using safe_div_zero_guard [of 1 "V4 f_one 0 f_one 0x80000000" SSE2 "V4 f_one f_one f_one f_one"]
      safe_div_zero_guard [of 0 "V4 f_one 0 f_one 0x80000000" SSE2 "V4 f_one f_one f_one f_one"]
    by (simp add: e f_zero_facts)
qed

lemma lane_xyz0: "lane (xyz0 be a) k = (if k < 3 then lane a k else f_zero)"
  by (cases a) (simp add: xyz0_def float4_insert_def)

lemma lane_shuffle1: "lane (float4_shuffle1 be i a) k = lane a i"
  by (simp add: float4_shuffle1_def float4_shuffle_def shuffle_sse_def float4_float4_def
      float4_load4_def)

lemma lane_float3_float4:
  "k < 4 \<Longrightarrow> lane (float3_float4 be a) k = (if defined_SSE be \<or> k < 3 then lane a k else f_zero)"
  using lt4_cases[of k] by (auto simp add: float3_float4_def)

lemma lane_hdiv:
  assumes "k < 4"
  shows "lane (hdiv be a) k
     = (if f_eq (lane a 3) f_zero \<or> 3 \<le> k then f_zero else fdiv (lane a k) (lane a 3))"
proof (cases "defined_SSE be")
  case True
  then show ?thesis using assms
    by (simp add: hdiv_def lane_float3_float4 lane_xyz0 lane_safe_div lane_shuffle1)
next
  case False
  then show ?thesis using lt4_cases[OF assms]
    by (auto simp add: hdiv_def Let_def float3_float_def float3_load_def float3_float3_def
        float4_load4_def)
qed

text \<open>
  C9. On every backend: when lane 3 of \<open>a\<close> compares equal to 0.0, \<^verbatim>\<open>hdiv(a)\<close> is
  the zero vector (all four lanes +0.0, so no infinity and no NaN); otherwise lane \<open>k\<close>
  of \<^verbatim>\<open>hdiv(a)\<close> is \<^verbatim>\<open>a[k] / a[3]\<close> for \<open>k\<close> in 0..2.
\<close>

theorem hdiv_zero_guard:
  "(f_eq (lane a 3) f_zero \<longrightarrow> hdiv be a = V4 f_zero f_zero f_zero f_zero)
   \<and> (\<not> f_eq (lane a 3) f_zero \<longrightarrow>
        (\<forall>k<3. lane (hdiv be a) k = fdiv (lane a k) (lane a 3)))"
proof -
  have "hdiv be a = V4 f_zero f_zero f_zero f_zero" if "f_eq (lane a 3) f_zero"
    by (rule v4_eqI) (simp add: lane_hdiv that)
  then show ?thesis by (simp add: lane_hdiv)
qed

theorem hdiv_zero_guard_witness:
  "f_eq (lane (V4 f_one f_one f_one 0) 3) f_zero
   \<and> hdiv SSE2 (V4 f_one f_one f_one 0) = V4 f_zero f_zero f_zero f_zero
   \<and> \<not> f_eq (lane (V4 0 f_one 0 f_one) 3) f_zero \<and> (1::nat) < 3
   \<and> lane (hdiv NoSIMD (V4 0 f_one 0 f_one)) 1 = fdiv f_one f_one"
proof -
  have e: "f_eq 0 f_zero" "\<not> f_eq f_one f_zero"
    by (simp_all add: f_eq_def f_key_def is_nan_def f_exp_def f_man_def f_sign_def f_zero_def
        f_one_def)
  show ?thesis
    using hdiv_zero_guard [of "V4 f_one f_one f_one 0" SSE2]
      hdiv_zero_guard [of "V4 0 f_one 0 f_one" NoSIMD]
    by (simp add: e)
qed

subsection \<open>Powers of two and the binary logarithm\<close>

lemma pow2_powi: "pow2 e = 2 powi e"
proof (cases "0 \<le> e")
  case True
  then show ?thesis by (simp add: pow2_def power_int_def)
next
  case False
  then have "pow2 e = 1 / 2 ^ nat (- e)" by (simp add: pow2_def)
  also have "\<dots> = inverse 2 ^ nat (- e)" by (simp add: power_one_over inverse_eq_divide)
  also have "\<dots> = 2 powi e" using False by (simp only: power_int_def if_False)
  finally show ?thesis .
qed

lemma pow2_pos: "0 < pow2 e"
  by (simp add: pow2_powi)

lemma pow2_add: "pow2 (a + b) = pow2 a * pow2 b"
  by (simp add: pow2_powi power_int_add)

lemma pow2_strict_mono: "a < b \<Longrightarrow> pow2 a < pow2 b"
  by (simp add: pow2_powi power_int_strict_increasing)

lemma pow2_mono: "a \<le> b \<Longrightarrow> pow2 a \<le> pow2 b"
  by (simp add: pow2_powi power_int_increasing)

lemma pow2_nat: "pow2 (int n) = 2 ^ n"
  by (simp add: pow2_def)

lemma pow2_le_iff: "pow2 a \<le> pow2 b \<longleftrightarrow> a \<le> b"
  using pow2_strict_mono[of b a] pow2_mono[of a b] by (auto simp add: not_le[symmetric])

lemma pow2_less_iff: "pow2 a < pow2 b \<longleftrightarrow> a < b"
  using pow2_strict_mono[of a b] pow2_mono[of b a] by (auto simp add: not_less[symmetric])

lemma ilog2_unique:
  assumes "pow2 e \<le> x" "x < pow2 (e + 1)" "pow2 e' \<le> x" "x < pow2 (e' + 1)"
  shows "e = e'"
proof -
  have "pow2 e < pow2 (e' + 1)" using assms(1,4) by simp
  then have 1: "e < e' + 1" by (simp add: pow2_less_iff)
  have "pow2 e' < pow2 (e + 1)" using assms(2,3) by simp
  then have 2: "e' < e + 1" by (simp add: pow2_less_iff)
  from 1 2 show ?thesis by simp
qed

lemma bitlen_pow2_bounds:
  assumes "0 < (p::int)"
  shows "pow2 (bitlen p - 1) \<le> of_int p" "of_int p < pow2 (bitlen p)"
proof -
  from bitlen_bounds[OF assms] have b: "2 ^ nat (bitlen p - 1) \<le> p" "p < 2 ^ nat (bitlen p)"
    by simp_all
  have ge1: "1 \<le> bitlen p" using assms by (simp add: bitlen_alt_def)
  have "pow2 (bitlen p - 1) = of_int (2 ^ nat (bitlen p - 1))"
    using ge1 by (simp add: pow2_def)
  also have "\<dots> \<le> of_int p" using b(1) by (simp only: of_int_le_iff)
  finally show "pow2 (bitlen p - 1) \<le> of_int p" .
  have "(of_int p :: rat) < of_int (2 ^ nat (bitlen p))" using b(2) by (simp only: of_int_less_iff)
  also have "\<dots> = pow2 (bitlen p)" using ge1 by (simp add: pow2_def)
  finally show "of_int p < pow2 (bitlen p)" .
qed

lemma ilog2_bounds:
  assumes "0 < x"
  shows "pow2 (ilog2 x) \<le> x \<and> x < pow2 (ilog2 x + 1)"
proof -
  obtain p q where pq: "quotient_of x = (p, q)" by (cases "quotient_of x")
  then have q: "0 < q" by (rule quotient_of_denom_pos)
  have x: "x = of_int p / of_int q" using pq by (rule quotient_of_div)
  have p: "0 < p" using assms q by (simp add: x zero_less_divide_iff)
  note bp = bitlen_pow2_bounds[OF p] and bq = bitlen_pow2_bounds[OF q]
  define d where "d = bitlen p - bitlen q"
  have qr: "(0::rat) < of_int q" using q by simp
  have up: "x < pow2 (d + 1)"
  proof -
    have "of_int p < pow2 (bitlen p)" by (rule bp(2))
    also have "\<dots> = pow2 (d + 1) * pow2 (bitlen q - 1)"
      by (simp add: d_def pow2_add[symmetric])
    also have "\<dots> \<le> pow2 (d + 1) * of_int q"
      using bq(1) pow2_pos[of "d + 1"] by simp
    finally show ?thesis using qr by (simp add: x pos_divide_less_eq)
  qed
  have lo: "pow2 (d - 1) \<le> x"
  proof -
    have "pow2 (d - 1) * of_int q \<le> pow2 (d - 1) * pow2 (bitlen q)"
      using bq(2) pow2_pos[of "d - 1"] by simp
    also have "\<dots> = pow2 (bitlen p - 1)"
      by (simp add: d_def pow2_add[symmetric])
    also have "\<dots> \<le> of_int p" by (rule bp(1))
    finally show ?thesis using qr by (simp add: x pos_le_divide_eq)
  qed
  have il: "ilog2 x = (if pow2 d \<le> x then d else d - 1)"
    by (simp add: ilog2_def pq d_def Let_def)
  show ?thesis
  proof (cases "pow2 d \<le> x")
    case True
    then show ?thesis using up by (simp add: il)
  next
    case False
    then show ?thesis using lo by (simp add: il)
  qed
qed

lemma ilog2_eqI:
  assumes "pow2 e \<le> x" "x < pow2 (e + 1)"
  shows "ilog2 x = e"
proof -
  have "0 < x" using assms(1) pow2_pos[of e] by simp
  from ilog2_bounds[OF this] assms show ?thesis
    by (auto intro: ilog2_unique)
qed

lemma rne_of_int: "rne (of_int n) = n"
  by (simp add: rne_def)

subsection \<open>Rounding a representable value\<close>

lemma unat_lt32: "unat (a :: w32) < 2 ^ 32"
  using unsigned_less[of a] by simp

lemma f_exp_lt: "f_exp a < 256"
  by (simp add: f_exp_def)

lemma f_man_lt: "f_man a < 2 ^ 23"
  by (simp add: f_man_def)

lemma mag_bits: "unat a mod 2 ^ 31 = f_exp a * 2 ^ 23 + f_man a"
proof -
  have "unat a mod 2 ^ 31 = unat a mod (2 ^ 23 * 256)" by simp
  also have "\<dots> = 2 ^ 23 * (unat a div 2 ^ 23 mod 256) + unat a mod 2 ^ 23"
    by (rule mod_mult2_eq)
  finally show ?thesis by (simp add: f_exp_def f_man_def)
qed

lemma f_pack_unpack: "f_pack (f_sign a) (unat a mod 2 ^ 31) = a"
proof -
  have d: "unat a div 2 ^ 31 = (if f_sign a then 1 else 0)"
    using unat_lt32[of a] unfolding f_sign_def by simp arith
  have "a = of_nat (unat a)" by simp
  also have "\<dots> = of_nat (unat a div 2 ^ 31 * 2 ^ 31 + unat a mod 2 ^ 31)"
    by (simp only: div_mult_mod_eq)
  also have "\<dots> = of_nat (unat a div 2 ^ 31) * 2 ^ 31 + of_nat (unat a mod 2 ^ 31)"
    by (simp only: of_nat_add of_nat_mult of_nat_power of_nat_numeral)
  also have "\<dots> = f_pack (f_sign a) (unat a mod 2 ^ 31)"
    by (simp only: d f_pack_def) simp
  finally show ?thesis by simp
qed

lemma f_mag_nonneg: "0 \<le> f_mag a"
  using pow2_pos[of "- 149"] pow2_pos[of "int (f_exp a) - 150"]
  by (simp add: f_mag_def)

lemma f_mag_zero_iff: "f_mag a = 0 \<longleftrightarrow> is_zero a"
  using pow2_pos[of "- 149"] pow2_pos[of "int (f_exp a) - 150"]
  by (auto simp add: f_mag_def is_zero_def)

lemma f_round_mag:
  assumes "is_finite a"
  shows "f_round s (f_mag a) = f_pack s (unat a mod 2 ^ 31)"
proof (cases "is_zero a")
  case True
  then have "f_mag a = 0" by (simp add: f_mag_zero_iff)
  moreover have "unat a mod 2 ^ 31 = 0" using True mag_bits[of a] by (simp add: is_zero_def)
  ultimately show ?thesis by (simp add: f_round_def)
next
  case False
  then have nz: "f_mag a \<noteq> 0" by (simp add: f_mag_zero_iff)
  show ?thesis
  proof (cases "f_exp a = 0")
    case True
    with False have m: "0 < f_man a" by (simp add: is_zero_def)
    have x: "f_mag a = of_nat (f_man a) * pow2 (- 149)" using True by (simp add: f_mag_def)
    have "f_mag a < 2 ^ 23 * pow2 (- 149)"
      using f_man_lt[of a] pow2_pos[of "- 149"] by (simp add: x)
    also have "\<dots> = pow2 (- 126)" by (simp add: pow2_def)
    finally have up: "f_mag a < pow2 (- 126)" .
    have pos: "0 < f_mag a" using nz f_mag_nonneg[of a] by simp
    from ilog2_bounds[OF pos] up have "pow2 (ilog2 (f_mag a)) < pow2 (- 126)" by simp
    then have "ilog2 (f_mag a) < - 126" by (simp add: pow2_less_iff)
    then have e: "max (ilog2 (f_mag a) - 23) (- 149) = - 149" by simp
    have "f_mag a / pow2 (- 149) = of_int (int (f_man a))"
      using pow2_pos[of "- 149"] by (simp add: x)
    then have n: "rne (f_mag a / pow2 (- 149)) = int (f_man a)" by (simp only: rne_of_int)
    have b: "\<not> (255 * 2 ^ 23 \<le> f_man a)" using f_man_lt[of a] by simp
    have bits: "nat ((- 149 + 149) * 2 ^ 23 + int (f_man a)) = f_man a" by simp
    have fr: "f_round s (f_mag a)
        = (if 255 * 2 ^ 23 \<le> nat ((- 149 + 149) * 2 ^ 23 + int (f_man a)) then f_inf s
           else f_pack s (nat ((- 149 + 149) * 2 ^ 23 + int (f_man a))))"
      using nz by (simp only: f_round_def Let_def e n if_False)
    have mb: "unat a mod 2 ^ 31 = f_man a" using True mag_bits[of a] by simp
    show ?thesis using b by (simp only: fr bits mb if_False)
  next
    case False
    then have E: "1 \<le> f_exp a" by simp
    have E2: "f_exp a \<le> 254" using assms by (simp add: is_finite_def)
    define q where "q = int (f_exp a) - 150"
    define n where "n = 2 ^ 23 + f_man a"
    have x: "f_mag a = of_nat n * pow2 q" using False by (simp add: f_mag_def q_def n_def)
    have nb: "2 ^ 23 \<le> n" "n < 2 ^ 24" using f_man_lt[of a] by (simp_all add: n_def)
    have p23: "pow2 23 = 2 ^ 23" "pow2 24 = 2 ^ 24" by (simp_all add: pow2_def)
    have "pow2 (q + 23) = 2 ^ 23 * pow2 q" by (simp only: pow2_add p23 mult.commute)
    also have "\<dots> \<le> of_nat n * pow2 q"
    proof -
      have "(2 ^ 23 :: rat) \<le> of_nat n" using nb(1) by (metis of_nat_le_iff of_nat_numeral of_nat_power)
      then show ?thesis using pow2_pos[of q] by simp
    qed
    finally have lo: "pow2 (q + 23) \<le> f_mag a" by (simp add: x)
    have "of_nat n * pow2 q < 2 ^ 24 * pow2 q"
    proof -
      have "(of_nat n :: rat) < 2 ^ 24" using nb(2) by (metis of_nat_less_iff of_nat_numeral of_nat_power)
      then show ?thesis using pow2_pos[of q] by simp
    qed
    also have "\<dots> = pow2 (q + 24)" by (simp only: pow2_add p23 mult.commute)
    also have "\<dots> = pow2 (q + 23 + 1)" by (simp add: add.commute)
    finally have up: "f_mag a < pow2 (q + 23 + 1)" by (simp add: x)
    have il: "ilog2 (f_mag a) = q + 23" by (rule ilog2_eqI[OF lo up])
    have e: "max (ilog2 (f_mag a) - 23) (- 149) = q" using E by (simp add: il q_def)
    have "f_mag a / pow2 q = of_int (int n)" using pow2_pos[of q] by (simp add: x)
    then have r: "rne (f_mag a / pow2 q) = int n" by (simp only: rne_of_int)
    have bits: "nat ((q + 149) * 2 ^ 23 + int n) = f_exp a * 2 ^ 23 + f_man a"
      using E by (simp add: q_def n_def nat_add_distrib nat_mult_distrib algebra_simps)
    have b: "\<not> (255 * 2 ^ 23 \<le> f_exp a * 2 ^ 23 + f_man a)"
      using E2 f_man_lt[of a] by simp
    have fr: "f_round s (f_mag a)
        = (if 255 * 2 ^ 23 \<le> nat ((q + 149) * 2 ^ 23 + int n) then f_inf s
           else f_pack s (nat ((q + 149) * 2 ^ 23 + int n)))"
      using nz by (simp only: f_round_def Let_def e r if_False)
    show ?thesis using b by (simp only: fr bits mag_bits if_False)
  qed
qed

subsection \<open>Arithmetic with 0.0 and 1.0\<close>

lemma f_round_id: "is_finite a \<Longrightarrow> f_round (f_sign a) (f_mag a) = a"
  by (simp only: f_round_mag f_pack_unpack)

lemma finite_not_special: "is_finite a \<Longrightarrow> \<not> is_nan a \<and> \<not> is_inf a"
  by (simp add: is_finite_def is_nan_def is_inf_def)

lemma zero_finite: "is_zero z \<Longrightarrow> is_finite z"
  by (simp add: is_zero_def is_finite_def)

lemma f_one_facts:
  "f_mag f_one = 1" "\<not> f_sign f_one" "is_finite f_one" "\<not> is_zero f_one"
  by (simp_all add: f_one_def f_mag_def f_exp_def f_man_def pow2_def f_sign_def is_finite_def
      is_zero_def)


lemma f_val_zero_iff: "f_val a = 0 \<longleftrightarrow> is_zero a"
  by (simp add: f_val_def f_mag_zero_iff)

lemma f_val_sign:
  assumes "\<not> is_zero a"
  shows "(f_val a < 0) = f_sign a" "\<bar>f_val a\<bar> = f_mag a"
proof -
  have "0 < f_mag a" using assms f_mag_nonneg[of a] f_mag_zero_iff[of a] by simp
  then show "(f_val a < 0) = f_sign a" "\<bar>f_val a\<bar> = f_mag a"
    by (simp_all add: f_val_def)
qed

lemma fmul_one: "is_finite a \<Longrightarrow> fmul a f_one = a"
  using finite_not_special[of a] finite_not_special[of f_one]
  by (simp add: fmul_def f_one_facts f_round_id)

lemma fdiv_one: "is_finite a \<Longrightarrow> fdiv a f_one = a"
  using finite_not_special[of a] finite_not_special[of f_one]
  by (simp add: fdiv_def f_one_facts f_round_id)


lemma fadd_zero_r:
  assumes "is_finite a" "is_zero z"
  shows "fadd a z = (if is_zero a then f_pack (f_sign a \<and> f_sign z) 0 else a)"
proof -
  have v: "f_val z = 0" using assms(2) by (simp add: f_val_zero_iff)
  note sp = finite_not_special[OF assms(1)] finite_not_special[OF zero_finite[OF assms(2)]]
  show ?thesis
  proof (cases "is_zero a")
    case True
    then have "f_val a = 0" by (simp add: f_val_zero_iff)
    then show ?thesis using sp True by (simp add: fadd_def v)
  next
    case False
    then have "f_val a \<noteq> 0" by (simp add: f_val_zero_iff)
    then show ?thesis using sp False assms(1)
      by (simp add: fadd_def v f_val_sign f_round_id)
  qed
qed

lemma fadd_zero_l:
  assumes "is_finite a" "is_zero z"
  shows "fadd z a = (if is_zero a then f_pack (f_sign z \<and> f_sign a) 0 else a)"
proof -
  have v: "f_val z = 0" using assms(2) by (simp add: f_val_zero_iff)
  note sp = finite_not_special[OF assms(1)] finite_not_special[OF zero_finite[OF assms(2)]]
  show ?thesis
  proof (cases "is_zero a")
    case True
    then have "f_val a = 0" by (simp add: f_val_zero_iff)
    then show ?thesis using sp True by (simp add: fadd_def v)
  next
    case False
    then have "f_val a \<noteq> 0" by (simp add: f_val_zero_iff)
    then show ?thesis using sp False assms(1)
      by (simp add: fadd_def v f_val_sign f_round_id)
  qed
qed

text \<open>Equal as floats and finite: the same pattern, or two zeros.\<close>

lemma f_key_zero: "is_zero a \<Longrightarrow> f_key a = 0"
  using mag_bits[of a] by (simp add: f_key_def is_zero_def)

lemma f_eq_zeros: "is_zero a \<Longrightarrow> is_zero b \<Longrightarrow> f_eq a b"
  using finite_not_special[OF zero_finite[of a]] finite_not_special[OF zero_finite[of b]]
  by (simp add: f_eq_def f_key_zero)










subsection \<open>Square root\<close>

lemma isqrt_iter_bounds:
  "r * r \<le> n \<Longrightarrow> n < (r + 2 ^ k) * (r + 2 ^ k)
   \<Longrightarrow> isqrt_iter n r k * isqrt_iter n r k \<le> n
       \<and> n < (isqrt_iter n r k + 1) * (isqrt_iter n r k + 1)"
proof (induction k arbitrary: r)
  case 0
  then show ?case by simp
next
  case (Suc k)
  show ?case
  proof (cases "(r + 2 ^ k) * (r + 2 ^ k) \<le> n")
    case True
    have "n < (r + 2 ^ k + 2 ^ k) * (r + 2 ^ k + 2 ^ k)" using Suc.prems(2) by (simp add: algebra_simps)
    from Suc.IH[OF True this] True show ?thesis by (simp add: Let_def)
  next
    case False
    then have "n < (r + 2 ^ k) * (r + 2 ^ k)" by simp
    from Suc.IH[OF Suc.prems(1) this] False show ?thesis by (simp add: Let_def)
  qed
qed

lemma isqrt_bounds: "isqrt n * isqrt n \<le> n \<and> n < (isqrt n + 1) * (isqrt n + 1)"
proof -
  let ?k = "nat (bitlen (int n))"
  have "n < 2 ^ ?k"
  proof (cases "n = 0")
    case True then show ?thesis by simp
  next
    case False
    then have "0 < int n" by simp
    from bitlen_bounds[OF this] have "int n < 2 ^ ?k" by simp
    then show ?thesis by (metis of_nat_less_iff of_nat_numeral of_nat_power)
  qed
  also have "(2::nat) ^ ?k \<le> 2 ^ ?k * 2 ^ ?k" by simp
  finally have "n < (0 + 2 ^ ?k) * (0 + 2 ^ ?k)" by simp
  from isqrt_iter_bounds[OF _ this] show ?thesis by (simp add: isqrt_def)
qed

lemma isqrt_square: "isqrt (k * k) = k"
proof -
  let ?s = "isqrt (k * k)"
  from isqrt_bounds[of "k * k"] have 1: "?s\<^sup>2 \<le> k\<^sup>2" and 2: "k\<^sup>2 < (?s + 1)\<^sup>2"
    by (simp_all add: power2_eq_square)
  from 1 have "?s \<le> k" by (rule power2_le_imp_le) simp
  moreover from 2 have "k < ?s + 1" by (rule power2_less_imp_less) simp
  ultimately show ?thesis by simp
qed

lemma fsqrt_one: "fsqrt f_one = f_one"
proof -
  have m: "nat \<lfloor>(1::rat) * 2 ^ 200\<rfloor> = 2 ^ 100 * 2 ^ 100"
    by simp
  have "f_round False (f_mag f_one) = f_one"
    using f_round_id[of f_one] by (simp add: f_one_facts)
  then have r: "f_round False 1 = f_one" by (simp add: f_one_facts)
  have s: "\<not> is_nan f_one" "\<not> is_inf f_one"
    using finite_not_special[of f_one] by (simp_all add: f_one_facts)
  have "fsqrt f_one = f_round False (of_nat (2 * 2 ^ 100 + (if (2 ^ 100 :: nat) * 2 ^ 100 = 2 ^ 100 * 2 ^ 100 then 0 else 1)) / 2 ^ 101)"
    using s by (simp only: fsqrt_def m isqrt_square Let_def f_one_facts if_False)
  also have "\<dots> = f_round False 1" by simp
  finally show ?thesis by (simp only: r)
qed

lemma fsqrt_zero: "is_zero z \<Longrightarrow> fsqrt z = z"
  using finite_not_special[of z] zero_finite[of z] by (simp add: fsqrt_def)

lemma unit_arith:
  "fmul 0 0 = 0" "fadd 0 0 = 0" "fsqrt 0 = 0" "fsqrt f_one = f_one"
  "fmul f_one f_one = f_one" "fadd f_one 0 = f_one" "fadd 0 f_one = f_one"
  "fdiv f_one f_one = f_one" "fdiv 0 f_one = 0"
  "f_eq 0 0" "\<not> f_eq f_one 0" "f_lt 0 f_one" "\<not> f_lt 0 0"
proof -
  have z: "is_zero 0" "is_finite 0" "\<not> f_sign 0" "\<not> is_nan 0" "\<not> is_inf 0"
    by (simp_all add: is_zero_def is_finite_def f_sign_def is_nan_def is_inf_def f_exp_def
        f_man_def)
  have p0: "f_pack False 0 = 0" by (simp add: f_pack_def)
  show "fmul 0 0 = 0" using z f_mag_zero_iff[of 0] by (simp add: fmul_def f_round_def p0)
  show "fadd 0 0 = 0" using z by (simp add: fadd_zero_r p0)
  show "fsqrt 0 = 0" using z by (simp add: fsqrt_zero)
  show "fsqrt f_one = f_one" by (rule fsqrt_one)
  show "fmul f_one f_one = f_one" by (simp add: fmul_one f_one_facts)
  show "fadd f_one 0 = f_one" using z by (simp add: fadd_zero_r f_one_facts)
  show "fadd 0 f_one = f_one" using z by (simp add: fadd_zero_l f_one_facts)
  show "fdiv f_one f_one = f_one" by (simp add: fdiv_one f_one_facts)
  show "fdiv 0 f_one = 0" using z by (simp add: fdiv_one)
  show "f_eq 0 0" using z by (simp add: f_eq_zeros)
  show "\<not> f_eq f_one 0" "f_lt 0 f_one" "\<not> f_lt 0 0"
    by (simp_all add: f_eq_def f_lt_def f_key_def f_one_def f_sign_def is_nan_def f_exp_def f_man_def)
qed


subsection \<open>float3::normalized\<close>

lemma backend_cases:
  "(be = NoSIMD \<Longrightarrow> P) \<Longrightarrow> (be = SSE2 \<Longrightarrow> P) \<Longrightarrow> (be = SSE3 \<Longrightarrow> P) \<Longrightarrow> (be = SSE4 \<Longrightarrow> P) \<Longrightarrow> P"
  by (cases be) auto

lemmas vec_defs = float3_float3_def float4_load4_def float3_vdot3_def float3_float4_def
  float3_mul_def float4_mul_def mm_mul_ps_def map2_lanes_def map_lanes_def SIMD_RETURN_def xyz0_def xyz1_def
  float4_insert_def vreduce_add_def mm_hadd_ps_def float4_add_def mm_add_ps_def float4_shuffle_def
  shuffle_sse_def float4_sqrt_def mm_sqrt_ps_def safe_div_def blend0not_def mm_andnot_def
  float4_div_def mm_div_ps_def float4_eq_def mm_cmpeq_ps_def bool_lane_def float4_Zero_def
  mm_setzero_def splat_def float4_float_def float4_load_def float4_float4_def mm_dp_ps_def
  float3_dot_def reduce_add_def float3_div_def float3_float_def float3_load_def float3_Zero_def
  defined_SSE_def Let_def f_zero_def rsqrt_fast_def

lemma normalized_zero: "normalized be (float3_float3 be f_zero f_zero f_zero) = V4 0 0 0 0"
  by (rule backend_cases[of be]) (simp_all add: normalized_def vec_defs unit_arith)

lemma normalized_unit_x:
  "normalized be (float3_float3 be f_one f_zero f_zero) = V4 f_one 0 0 0"
  by (rule backend_cases[of be]) (simp_all add: normalized_def vec_defs unit_arith)

lemma normalized_fast_zero:
  "normalized_fast be rsqrtps (float3_float3 be f_zero f_zero f_zero) = V4 0 0 0 0"
  by (rule backend_cases[of be]) (simp_all add: normalized_fast_def vec_defs unit_arith)

lemma lane_float4_sqrt: "k < 4 \<Longrightarrow> lane (float4_sqrt be a) k = fsqrt (lane a k)"
  using lt4_cases[of k]
  by (auto simp add: float4_sqrt_def mm_sqrt_ps_def lane_map float4_float4_def float4_load4_def)

lemma lane_normalized_sse:
  assumes "defined_SSE be" "k < 3"
  shows "lane (normalized be v) k
     = (let s = fsqrt (lane (float3_vdot3 be v v) k)
        in if f_eq s f_zero then f_zero else fdiv (lane v k) s)"
  using assms
  by (simp add: normalized_def Let_def lane_float3_float4 lane_safe_div lane_float4_sqrt)

lemma lane_float3_div:
  assumes "k < 4"
  shows "lane (float3_div be a b) k
     = (if k < 3 then fdiv (lane a k) (lane b k)
        else if defined_SSE be then fdiv (lane a 3) f_one else f_zero)"
proof -
  obtain b0 b1 b2 b3 where b: "b = V4 b0 b1 b2 b3" by (cases b)
  show ?thesis using lt4_cases[OF assms]
    by (auto simp add: float3_div_def lane_float3_float4 lane_float4_div xyz1_def
        float4_insert_def b)
qed

lemma lane_normalized_scalar:
  assumes "\<not> defined_SSE be" "k < 3"
  shows "lane (normalized be v) k
     = (let len2 = float3_dot be v v
        in if f_lt f_zero len2 then fdiv (lane v k) (fsqrt len2) else f_zero)"
proof -
  have k4: "k < 4" using assms(2) by simp
  have "lane (float3_float be w) k = w" for w
    using assms(2) lt4_cases[OF k4] by (auto simp add: float3_float_def float3_load_def float4_load4_def)
  then show ?thesis using assms k4
    by (simp add: normalized_def Let_def lane_float3_div float3_Zero_def lane_float3_float4
        lane_float4_Zero)
qed

lemma vdot3_lanes_sse34:
  assumes "be = SSE3 \<or> be = SSE4" "k < 3"
  shows "lane (float3_vdot3 be a b) k
     = fadd (fadd (fmul (lane a 0) (lane b 0)) (fmul (lane a 1) (lane b 1)))
            (fadd (fmul (lane a 2) (lane b 2)) f_zero)"
proof -
  obtain a0 a1 a2 a3 where a: "a = V4 a0 a1 a2 a3" by (cases a)
  obtain b0 b1 b2 b3 where b: "b = V4 b0 b1 b2 b3" by (cases b)
  have "k = 0 \<or> k = 1 \<or> k = 2" using assms(2) by arith
  then show ?thesis using assms(1)
    by (auto simp add: a b float3_vdot3_def float3_float4_def mm_dp_ps_def SIMD_RETURN_def
        defined_SSE_def Let_def xyz0_def float4_insert_def vreduce_add_def mm_hadd_ps_def
        float3_mul_def float4_mul_def mm_mul_ps_def map2_lanes_def)
qed

lemma vdot3_lanes_sse2:
  "lane (float3_vdot3 SSE2 a b) 0
     = fadd (fadd (fmul (lane a 1) (lane b 1)) (fmul (lane a 0) (lane b 0)))
            (fadd f_zero (fmul (lane a 2) (lane b 2)))"
  "lane (float3_vdot3 SSE2 a b) 1
     = fadd (fadd (fmul (lane a 0) (lane b 0)) (fmul (lane a 1) (lane b 1)))
            (fadd (fmul (lane a 2) (lane b 2)) f_zero)"
  "lane (float3_vdot3 SSE2 a b) 2
     = fadd (fadd f_zero (fmul (lane a 2) (lane b 2)))
            (fadd (fmul (lane a 1) (lane b 1)) (fmul (lane a 0) (lane b 0)))"
  by (cases a; cases b; simp add: float3_vdot3_def float3_float4_def SIMD_RETURN_def
        defined_SSE_def Let_def xyz0_def float4_insert_def vreduce_add_def
        float3_mul_def float4_mul_def mm_mul_ps_def map2_lanes_def float4_add_def mm_add_ps_def
        float4_shuffle_def shuffle_sse_def)+

lemma vdot3_lane3: "defined_SSE be \<Longrightarrow> lane (float3_vdot3 be a b) 3 = f_zero"
  by (rule backend_cases[of be])
     (simp_all add: float3_vdot3_def float3_float4_def mm_dp_ps_def SIMD_RETURN_def
        defined_SSE_def Let_def lane_xyz0)

lemma dot_scalar:
  "float3_dot NoSIMD a b
     = fadd (fadd (fadd (fmul (lane a 0) (lane b 0)) (fmul (lane a 1) (lane b 1)))
                  (fmul (lane a 2) (lane b 2))) f_zero"
  by (cases a; cases b)
     (simp add: float3_dot_def reduce_add_def defined_SSE_def float3_mul_def float3_float4_def
        float4_mul_def SIMD_RETURN_def)

lemma fsqrt_f_zero: "fsqrt f_zero = f_zero"
  using unit_arith(3) by (simp add: f_zero_def)

lemma normalized_lane3: "lane (normalized be v) 3 = f_zero"
proof (cases "defined_SSE be")
  case True
  then show ?thesis
    by (simp add: normalized_def Let_def lane_float3_float4 lane_safe_div lane_float4_sqrt
        vdot3_lane3 fsqrt_f_zero f_zero_facts)
next
  case False
  then show ?thesis
    by (simp add: normalized_def Let_def lane_float3_div float3_Zero_def lane_float3_float4
        lane_float4_Zero)
qed

lemma lane_rsqrt_fast_sse:
  "defined_SSE be \<Longrightarrow> k < 4 \<Longrightarrow> lane (rsqrt_fast be r a) k = r (lane a k)"
  by (simp add: rsqrt_fast_def lane_map)

lemma lane_normalized_fast_sse:
  assumes "defined_SSE be" "k < 4"
  shows "lane (normalized_fast be r v) k
     = fmul (lane v k) (let d = lane (float3_vdot3 be v v) k
                        in if f_eq d f_zero then f_zero else r d)"
proof -
  have c: "canonical (float4_eq be (float3_vdot3 be v v) (float4_Zero be))"
    by (rule canonical_float4_cmp)
  have g: "mask4_get be (float4_eq be (float3_vdot3 be v v) (float4_Zero be)) k
        = f_eq (lane (float3_vdot3 be v v) k) f_zero"
    using assms(2) by (simp add: mask4_get_canonical[OF c] lane_float4_eq lane_float4_Zero)
  show ?thesis using assms
    by (simp add: normalized_fast_def Let_def lane_float3_float4 lane_float4_mul
        lane_blend0not[OF c] g lane_rsqrt_fast_sse)
qed

lemma normalized_fast_scalar: "\<not> defined_SSE be \<Longrightarrow> normalized_fast be r v = normalized be v"
  by (simp add: normalized_fast_def normalized_def)



lemma rne_nearest:
  assumes "of_int n - 1 / 2 < x" "x < of_int n + 1 / 2"
  shows "rne x = n"
proof -
  let ?m = "\<lfloor>x\<rfloor>"
  have lo: "of_int ?m \<le> x" by simp
  have hi: "x < of_int ?m + 1" by linarith
  have a: "of_int ?m < (of_int n :: rat) + 1 / 2" using lo assms(2) by linarith
  have b: "(of_int n :: rat) - 1 / 2 < of_int ?m + 1" using hi assms(1) by linarith
  have "(of_int ?m :: rat) < of_int (n + 1)" using a by simp
  then have m1: "?m \<le> n" by (simp only: of_int_less_iff)
  have "(of_int (n - 2) :: rat) < of_int ?m" using b by simp
  then have m2: "n - 1 \<le> ?m" by (simp only: of_int_less_iff)
  from m1 m2 have "?m = n \<or> ?m = n - 1" by arith
  then show ?thesis
  proof
    assume e: "?m = n"
    then have "x - of_int ?m < 1 / 2" using assms(2) by simp
    then show ?thesis using e by (simp add: rne_def Let_def)
  next
    assume e: "?m = n - 1"
    then have "1 / 2 < x - of_int ?m" using assms(1) by simp
    then show ?thesis using e by (simp add: rne_def Let_def)
  qed
qed

lemma f_round_normal:
  assumes "pow2 e \<le> x" "x < pow2 (e + 1)" "- 126 \<le> e"
    and "rne (x / pow2 (e - 23)) = n"
    and "nat ((e + 126) * 2 ^ 23 + n) = bits" "bits < 255 * 2 ^ 23"
  shows "f_round s x = f_pack s bits"
proof -
  have x: "x \<noteq> 0" using assms(1) pow2_pos[of e] by simp
  have i: "ilog2 x = e" using assms(1,2) by (rule ilog2_eqI)
  have m: "max (e - 23) (- 149) = e - 23" using assms(3) by simp
  have b: "nat ((e - 23 + 149) * 2 ^ 23 + n) = bits" using assms(5) by (simp add: algebra_simps)
  have "f_round s x = (if 255 * 2 ^ 23 \<le> bits then f_inf s else f_pack s bits)"
    by (simp only: f_round_def Let_def i m assms(4) b x if_False)
  then show ?thesis using assms(6) by simp
qed

lemma fsqrt_exact:
  assumes "is_finite a" "\<not> is_zero a" "\<not> f_sign a" "f_mag a * 2 ^ 200 = of_nat (k * k)"
  shows "fsqrt a = f_round False (of_nat k / 2 ^ 100)"
proof -
  have m: "nat \<lfloor>f_mag a * 2 ^ 200\<rfloor> = k * k" by (simp only: assms(4) floor_of_nat nat_int)
  have h: "(of_nat (2 * k + 0) :: rat) / 2 ^ 101 = of_nat k / 2 ^ 100" by simp
  have n: "\<not> is_nan a" "\<not> is_inf a" using finite_not_special[OF assms(1)] by simp_all
  have "fsqrt a = f_round False (of_nat (2 * k + (if k * k = k * k then 0 else 1)) / 2 ^ 101)"
    by (simp only: fsqrt_def m isqrt_square Let_def n assms(2,3) if_False)
  then show ?thesis by (simp only: h refl if_True)
qed

lemma thirds_consts:
  "is_finite 0x40000000" "f_mag 0x40000000 = 2" "\<not> f_sign 0x40000000" "\<not> is_zero 0x40000000"
  "is_finite 0x40400000" "f_mag 0x40400000 = 3" "\<not> f_sign 0x40400000" "\<not> is_zero 0x40400000"
  "is_finite 0x40800000" "f_mag 0x40800000 = 4" "\<not> f_sign 0x40800000" "\<not> is_zero 0x40800000"
  "is_finite 0x40A00000" "f_mag 0x40A00000 = 5" "\<not> f_sign 0x40A00000" "\<not> is_zero 0x40A00000"
  "is_finite 0x41100000" "f_mag 0x41100000 = 9" "\<not> f_sign 0x41100000" "\<not> is_zero 0x41100000"
  by (simp_all add: is_finite_def f_mag_def f_sign_def is_zero_def f_exp_def f_man_def pow2_def)

lemma f_round_thirds_ints:
  "f_round False 3 = 0x40400000" "f_round False 4 = 0x40800000"
  "f_round False 5 = 0x40A00000" "f_round False 9 = 0x41100000"
  using f_round_id[of "0x40400000"] f_round_id[of "0x40800000"] f_round_id[of "0x40A00000"]
    f_round_id[of "0x41100000"]
  by (simp_all add: thirds_consts)

lemma f_round_third: "f_round False (1 / 3) = 0x3EAAAAAB"
proof -
  have r: "rne (33554432 / 3) = 11184811"
    by (rule rne_nearest) simp_all
  have "f_round False (1 / 3) = f_pack False 1051372203"
    by (rule f_round_normal[where e = "- 2" and n = 11184811]) (simp_all add: pow2_def r)
  then show ?thesis by (simp add: f_pack_def)
qed

lemma f_round_two_thirds: "f_round False (2 / 3) = 0x3F2AAAAB"
proof -
  have r: "rne (33554432 / 3) = 11184811"
    by (rule rne_nearest) simp_all
  have "f_round False (2 / 3) = f_pack False 1059760811"
    by (rule f_round_normal[where e = "- 1" and n = 11184811]) (simp_all add: pow2_def r)
  then show ?thesis by (simp add: f_pack_def)
qed

lemma thirds_arith:
  "fmul 0x40000000 0x40000000 = 0x40800000"
  "fadd f_one 0x40800000 = 0x40A00000" "fadd 0x40800000 f_one = 0x40A00000"
  "fadd 0x40800000 0 = 0x40800000" "fadd 0 0x40800000 = 0x40800000"
  "fadd 0x40A00000 0x40800000 = 0x41100000" "fadd 0x40800000 0x40A00000 = 0x41100000"
  "fadd 0x41100000 0 = 0x41100000"
  "fsqrt 0x41100000 = 0x40400000"
  "fdiv f_one 0x40400000 = 0x3EAAAAAB" "fdiv 0x40000000 0x40400000 = 0x3F2AAAAB"
  "\<not> f_eq 0x40400000 0" "\<not> f_eq 0x41100000 0" "f_lt 0 0x41100000"
proof -
  note c = thirds_consts f_one_facts
  have z: "is_zero 0" "is_finite 0" "\<not> f_sign 0" "\<not> is_nan 0" "\<not> is_inf 0"
    by (simp_all add: is_zero_def is_finite_def f_sign_def is_nan_def is_inf_def f_exp_def
        f_man_def)
  have s: "\<not> is_nan 0x40000000" "\<not> is_inf 0x40000000" "\<not> is_nan 0x40400000" "\<not> is_inf 0x40400000"
    "\<not> is_nan 0x40800000" "\<not> is_inf 0x40800000" "\<not> is_nan 0x40A00000" "\<not> is_inf 0x40A00000"
    "\<not> is_nan 0x41100000" "\<not> is_inf 0x41100000" "\<not> is_nan f_one" "\<not> is_inf f_one"
    using finite_not_special[of "0x40000000"] finite_not_special[of "0x40400000"]
      finite_not_special[of "0x40800000"] finite_not_special[of "0x40A00000"]
      finite_not_special[of "0x41100000"] finite_not_special[of f_one]
    by (simp_all add: c)
  have v: "f_val f_one = 1" "f_val 0x40800000 = 4" "f_val 0x40A00000 = 5"
    by (simp_all add: f_val_def c)
  show "fmul 0x40000000 0x40000000 = 0x40800000"
    by (simp add: fmul_def s c f_round_thirds_ints)
  show "fadd f_one 0x40800000 = 0x40A00000" "fadd 0x40800000 f_one = 0x40A00000"
    "fadd 0x40A00000 0x40800000 = 0x41100000" "fadd 0x40800000 0x40A00000 = 0x41100000"
    by (simp_all add: fadd_def s v f_round_thirds_ints)
  show "fadd 0x40800000 0 = 0x40800000" "fadd 0x41100000 0 = 0x41100000"
    using z by (simp_all add: fadd_zero_r c)
  show "fadd 0 0x40800000 = 0x40800000"
    using z by (simp add: fadd_zero_l c)
  have "f_mag 0x41100000 * 2 ^ 200 = of_nat ((3 * 2 ^ 100) * (3 * 2 ^ 100))"
    by (simp add: c)
  from fsqrt_exact[OF c(17) c(20) c(19) this]
  show "fsqrt 0x41100000 = 0x40400000" by (simp add: f_round_thirds_ints)
  show "fdiv f_one 0x40400000 = 0x3EAAAAAB" "fdiv 0x40000000 0x40400000 = 0x3F2AAAAB"
    by (simp_all add: fdiv_def s c f_round_third f_round_two_thirds)
  show "\<not> f_eq 0x40400000 0" "\<not> f_eq 0x41100000 0" "f_lt 0 0x41100000"
    by (simp_all add: f_eq_def f_lt_def f_key_def f_sign_def is_nan_def f_exp_def f_man_def)
qed


lemma normalized_122:
  "normalized be (float3_float3 be f_one 0x40000000 0x40000000)
     = V4 0x3EAAAAAB 0x3F2AAAAB 0x3F2AAAAB 0"
  by (rule backend_cases[of be]) (simp_all add: normalized_def vec_defs unit_arith thirds_arith)

lemma nan_arith:
  "is_nan 0x7FC00000" "fmul 0x7FC00000 0x7FC00000 = 0x7FC00000"
  "fadd 0x7FC00000 0 = 0x7FC00000" "fadd 0 0x7FC00000 = 0x7FC00000"
  "fadd 0x7FC00000 0x7FC00000 = 0x7FC00000"
  "fsqrt 0x7FC00000 = 0x7FC00000" "fdiv 0x7FC00000 0x7FC00000 = 0x7FC00000"
  "fdiv 0 0x7FC00000 = 0x7FC00000"
  "\<not> f_eq 0x7FC00000 0" "\<not> f_lt 0 0x7FC00000"
proof -
  have n: "is_nan 0x7FC00000" "quiet 0x7FC00000 = 0x7FC00000" "\<not> is_nan 0"
    by (simp_all add: is_nan_def f_exp_def f_man_def quiet_def)
  show "is_nan 0x7FC00000" by (rule n)
  show "fmul 0x7FC00000 0x7FC00000 = 0x7FC00000" "fadd 0x7FC00000 0 = 0x7FC00000"
    "fadd 0 0x7FC00000 = 0x7FC00000" "fadd 0x7FC00000 0x7FC00000 = 0x7FC00000"
    "fsqrt 0x7FC00000 = 0x7FC00000"
    "fdiv 0x7FC00000 0x7FC00000 = 0x7FC00000" "fdiv 0 0x7FC00000 = 0x7FC00000"
    "\<not> f_eq 0x7FC00000 0" "\<not> f_lt 0 0x7FC00000"
    by (simp_all add: fmul_def fadd_def fsqrt_def fdiv_def nan_of2_def f_eq_def f_lt_def n)
qed

text \<open>
  C6 (as amended). With \<open>p\<^sub>i = v[i] * v[i]\<close>, the squared length is the sum of the three
  squares and of the zero padding, added in the order of the backend:
  \<open>((p\<^sub>0 + p\<^sub>1) + p\<^sub>2) + 0\<close> in the scalar build, \<open>(p\<^sub>0 + p\<^sub>1) + (p\<^sub>2 + 0)\<close> with SSE3 and
  SSE4, and with SSE2 \<open>(p\<^sub>1 + p\<^sub>0) + (0 + p\<^sub>2)\<close>, \<open>(p\<^sub>0 + p\<^sub>1) + (p\<^sub>2 + 0)\<close> and
  \<open>(0 + p\<^sub>2) + (p\<^sub>1 + p\<^sub>0)\<close> in the lanes 0, 1 and 2. In the SIMD builds lane \<open>k < 3\<close> of
  \<^verbatim>\<open>normalized()\<close> is the \<^verbatim>\<open>safe_div\<close> of \<^verbatim>\<open>v[k]\<close> by the square root \<open>s\<close> of that sum:
  zero where \<^verbatim>\<open>s == 0.0f\<close>, \<^verbatim>\<open>v[k] / s\<close> elsewhere. The scalar build tests
  \<^verbatim>\<open>len2 > 0.0f\<close> instead: \<^verbatim>\<open>v[k] / sqrtf(len2)\<close> where it holds, zero otherwise. The
  padding lane of \<^verbatim>\<open>normalized()\<close> is zero. In the SIMD builds \<^verbatim>\<open>normalized_fast()\<close>
  multiplies \<^verbatim>\<open>v[k]\<close> by the approximate reciprocal square root of the squared length,
  replaced by zero where the squared length is \<^verbatim>\<open>== 0.0f\<close> (the padding lane is
  \<^verbatim>\<open>v[3] * 0.0f\<close>); in the scalar build it is \<^verbatim>\<open>normalized()\<close>. On every backend
  \<^verbatim>\<open>float3(0,0,0).normalized()\<close> is \<^verbatim>\<open>float3(0,0,0)\<close> with no NaN in any of the four
  lanes, \<^verbatim>\<open>float3(1,0,0).normalized()\<close> is exactly \<^verbatim>\<open>float3(1,0,0)\<close>,
  \<^verbatim>\<open>float3(1,2,2).normalized()\<close> is the floats nearest to 1/3, 2/3 and 2/3, and
  \<^verbatim>\<open>normalized_fast()\<close> of the zero vector is the zero vector, whatever the reciprocal
  square root approximation returns.
\<close>

theorem normalized_lanes:
  "(let sq = (\<lambda>i. fmul (lane v i) (lane v i));
        hsum = fadd (fadd (sq 0) (sq 1)) (fadd (sq 2) f_zero);
        len2 = (\<lambda>k::nat.
          if be = NoSIMD then fadd (fadd (fadd (sq 0) (sq 1)) (sq 2)) f_zero
          else if be = SSE2 then
            (if k = 0 then fadd (fadd (sq 1) (sq 0)) (fadd f_zero (sq 2))
             else if k = 1 then hsum
             else fadd (fadd f_zero (sq 2)) (fadd (sq 1) (sq 0)))
          else hsum);
        scalar = (\<lambda>k. if f_lt f_zero (len2 k) then fdiv (lane v k) (fsqrt (len2 k)) else f_zero)
    in (\<forall>k<3. lane (normalized be v) k
          = (if be = NoSIMD then scalar k
             else (let s = fsqrt (len2 k) in if f_eq s f_zero then f_zero else fdiv (lane v k) s)))
     \<and> lane (normalized be v) 3 = f_zero
     \<and> (\<forall>k<3. lane (normalized_fast be rsqrtps v) k
          = (if be = NoSIMD then scalar k
             else fmul (lane v k) (if f_eq (len2 k) f_zero then f_zero else rsqrtps (len2 k))))
     \<and> lane (normalized_fast be rsqrtps v) 3
          = (if be = NoSIMD then f_zero else fmul (lane v 3) f_zero))
   \<and> normalized be (float3_float3 be f_zero f_zero f_zero) = float3_float3 be f_zero f_zero f_zero
   \<and> (\<forall>k<4. \<not> is_nan (lane (normalized be (float3_float3 be f_zero f_zero f_zero)) k))
   \<and> normalized be (float3_float3 be f_one f_zero f_zero) = float3_float3 be f_one f_zero f_zero
   \<and> normalized be (float3_float3 be f_one 0x40000000 0x40000000)
       = float3_float3 be 0x3EAAAAAB 0x3F2AAAAB 0x3F2AAAAB
   \<and> normalized_fast be rsqrtps (float3_float3 be f_zero f_zero f_zero)
       = float3_float3 be f_zero f_zero f_zero"
proof -
  have z: "float3_float3 be f_zero f_zero f_zero = V4 0 0 0 0"
    and x: "float3_float3 be f_one f_zero f_zero = V4 f_one 0 0 0"
    and y: "float3_float3 be 0x3EAAAAAB 0x3F2AAAAB 0x3F2AAAAB = V4 0x3EAAAAAB 0x3F2AAAAB 0x3F2AAAAB 0"
    by (simp_all add: float3_float3_def float4_load4_def f_zero_def)
  have n: "\<not> is_nan 0" using f_zero_facts(1) by (simp add: f_zero_def)
  have i1: "normalized be (float3_float3 be f_zero f_zero f_zero) = float3_float3 be f_zero f_zero f_zero"
    using normalized_zero[of be] by (simp add: z)
  have i2: "\<forall>k<4. \<not> is_nan (lane (normalized be (float3_float3 be f_zero f_zero f_zero)) k)"
    by (simp add: normalized_zero n)
  have i3: "normalized be (float3_float3 be f_one f_zero f_zero) = float3_float3 be f_one f_zero f_zero"
    using normalized_unit_x[of be] by (simp add: x)
  have i4: "normalized be (float3_float3 be f_one 0x40000000 0x40000000)
       = float3_float3 be 0x3EAAAAAB 0x3F2AAAAB 0x3F2AAAAB"
    using normalized_122[of be] by (simp only: y)
  have i5: "normalized_fast be rsqrtps (float3_float3 be f_zero f_zero f_zero)
       = float3_float3 be f_zero f_zero f_zero"
    using normalized_fast_zero[of be rsqrtps] by (simp add: z)
  note inst = i1 i2 i3 i4 i5
  have k3: "k = 0 \<or> k = 1 \<or> k = 2" if "k < 3" for k :: nat using that by arith
  have g: ?thesis if "be = NoSIMD"
  proof -
    have d: "\<not> defined_SSE NoSIMD" by (simp add: defined_SSE_def)
    show ?thesis using inst unfolding that
      by (simp add: Let_def lane_normalized_scalar[OF d] normalized_fast_scalar[OF d] dot_scalar
          normalized_lane3)
  qed
  have h: ?thesis if "be = SSE2"
  proof -
    have d: "defined_SSE SSE2" by (simp add: defined_SSE_def)
    show ?thesis using inst unfolding that
      by (auto simp add: Let_def lane_normalized_sse[OF d] lane_normalized_fast_sse[OF d]
          vdot3_lanes_sse2 vdot3_lanes_sse2[unfolded One_nat_def] vdot3_lane3[OF d]
          normalized_lane3 f_zero_facts dest!: k3)
  qed
  have j: ?thesis if "be = SSE3 \<or> be = SSE4"
  proof -
    have d: "defined_SSE be" using that by (auto simp add: defined_SSE_def)
    have ne: "be \<noteq> NoSIMD" "be \<noteq> SSE2" using that by auto
    show ?thesis using inst
      by (simp add: Let_def lane_normalized_sse[OF d] lane_normalized_fast_sse[OF d]
          vdot3_lanes_sse34[OF that] vdot3_lane3[OF d] normalized_lane3 ne f_zero_facts)
  qed
  show ?thesis
  proof (rule backend_cases[of be])
    assume "be = NoSIMD"
    then show ?thesis by (rule g)
  next
    assume "be = SSE2"
    then show ?thesis by (rule h)
  next
    assume "be = SSE3"
    then have "be = SSE3 \<or> be = SSE4" by simp
    then show ?thesis by (rule j)
  next
    assume "be = SSE4"
    then have "be = SSE3 \<or> be = SSE4" by simp
    then show ?thesis by (rule j)
  qed
qed

theorem normalized_lanes_witness:
  "(0::nat) < 3 \<and> (1::nat) < 3 \<and> (2::nat) < 3
   \<and> lane (normalized SSE2 (float3_float3 SSE2 0x40000000 f_one 0x40000000)) 0 = 0x3F2AAAAB
   \<and> lane (normalized SSE4 (float3_float3 SSE4 0x40000000 f_one 0x40000000)) 1 = 0x3EAAAAAB
   \<and> lane (normalized NoSIMD (float3_float3 NoSIMD 0x40000000 f_one 0x40000000)) 2 = 0x3F2AAAAB
   \<and> lane (normalized_fast SSE2 (\<lambda>x. f_one) (float3_float3 SSE2 0x40000000 f_one 0x40000000)) 2
       = 0x40000000"
proof -
  have v: "float3_float3 be 0x40000000 f_one 0x40000000 = V4 0x40000000 f_one 0x40000000 0" for be
    by (simp add: float3_float3_def float4_load4_def f_zero_def)
  note a = normalized_lanes [where be = SSE2 and rsqrtps = "\<lambda>x. f_one"
      and v = "float3_float3 SSE2 0x40000000 f_one 0x40000000", unfolded Let_def]
  note b = normalized_lanes [where be = SSE4 and rsqrtps = "\<lambda>x. f_one"
      and v = "float3_float3 SSE4 0x40000000 f_one 0x40000000", unfolded Let_def]
  note c = normalized_lanes [where be = NoSIMD and rsqrtps = "\<lambda>x. f_one"
      and v = "float3_float3 NoSIMD 0x40000000 f_one 0x40000000", unfolded Let_def]
  have 1: "lane (normalized SSE2 (float3_float3 SSE2 0x40000000 f_one 0x40000000)) 0 = 0x3F2AAAAB"
    using a [THEN conjunct1, THEN conjunct1, rule_format, of 0]
    by (simp add: v f_zero_def unit_arith thirds_arith)
  have 2: "lane (normalized SSE4 (float3_float3 SSE4 0x40000000 f_one 0x40000000)) 1 = 0x3EAAAAAB"
    using b [THEN conjunct1, THEN conjunct1, rule_format, of 1]
    by (simp add: v f_zero_def unit_arith thirds_arith)
  have 3: "lane (normalized NoSIMD (float3_float3 NoSIMD 0x40000000 f_one 0x40000000)) 2 = 0x3F2AAAAB"
    using c [THEN conjunct1, THEN conjunct1, rule_format, of 2]
    by (simp add: v f_zero_def unit_arith thirds_arith)
  have 4: "lane (normalized_fast SSE2 (\<lambda>x. f_one) (float3_float3 SSE2 0x40000000 f_one 0x40000000)) 2
       = 0x40000000"
    using a [THEN conjunct1, THEN conjunct2, THEN conjunct2, THEN conjunct1, rule_format, of 2]
    by (simp add: v f_zero_def unit_arith thirds_arith fmul_one thirds_consts)
  show ?thesis using 1 2 3 4 by simp
qed

text \<open>
  C6 as stated fails in the scalar build, which does not divide with \<^verbatim>\<open>safe_div\<close>: for
  \<open>v = (NaN, 0, 0)\<close> the squared length is a NaN, \<^verbatim>\<open>len2 > 0.0f\<close> is false and
  \<^verbatim>\<open>normalized()\<close> is the zero vector, where \<^verbatim>\<open>safe_div(v, sqrt(vdot3(v,v)))\<close> has a
  NaN in lane 0, as \<^verbatim>\<open>normalized()\<close> has in the SSE2 build.
\<close>

theorem normalized_scalar_nan_counterexample:
  "normalized NoSIMD (float3_float3 NoSIMD 0x7FC00000 f_zero f_zero)
     = float3_float3 NoSIMD f_zero f_zero f_zero
   \<and> is_nan (lane (float3_float4 NoSIMD
        (safe_div NoSIMD (float3_float3 NoSIMD 0x7FC00000 f_zero f_zero)
           (float4_sqrt NoSIMD
              (float3_vdot3 NoSIMD (float3_float3 NoSIMD 0x7FC00000 f_zero f_zero)
                                   (float3_float3 NoSIMD 0x7FC00000 f_zero f_zero))))) 0)
   \<and> normalized NoSIMD (float3_float3 NoSIMD 0x7FC00000 f_zero f_zero)
       \<noteq> float3_float4 NoSIMD
        (safe_div NoSIMD (float3_float3 NoSIMD 0x7FC00000 f_zero f_zero)
           (float4_sqrt NoSIMD
              (float3_vdot3 NoSIMD (float3_float3 NoSIMD 0x7FC00000 f_zero f_zero)
                                   (float3_float3 NoSIMD 0x7FC00000 f_zero f_zero))))
   \<and> is_nan (lane (normalized SSE2 (float3_float3 SSE2 0x7FC00000 f_zero f_zero)) 0)"
  by (simp add: normalized_def vec_defs unit_arith nan_arith)

subsection \<open>matrix44::transformp with the identity\<close>






subsection \<open>floori, round and rint at concrete inputs\<close>

lemma f_round_small_ints:
  "f_round s 1 = f_pack s 0x3F800000" "f_round s 2 = f_pack s 0x40000000"
  "f_round s 3 = f_pack s 0x40400000"
proof -
  have "is_finite 0x3F800000" "f_mag 0x3F800000 = 1" "is_finite 0x40000000" "f_mag 0x40000000 = 2"
    "is_finite 0x40400000" "f_mag 0x40400000 = 3"
    by (simp_all add: is_finite_def f_mag_def f_exp_def f_man_def pow2_def)
  then show "f_round s 1 = f_pack s 0x3F800000" "f_round s 2 = f_pack s 0x40000000"
    "f_round s 3 = f_pack s 0x40400000"
    using f_round_mag[of "0x3F800000" s] f_round_mag[of "0x40000000" s] f_round_mag[of "0x40400000" s]
    by simp_all
qed

lemma float_consts:
  "f_mag 0xBF800000 = 1" "f_sign 0xBF800000" "\<not> is_nan 0xBF800000" "\<not> is_inf 0xBF800000"
  "f_mag 0x3F000000 = 1 / 2" "\<not> f_sign 0x3F000000" "\<not> is_nan 0x3F000000" "\<not> is_inf 0x3F000000"
  "f_mag 0xBF000000 = 1 / 2" "f_sign 0xBF000000" "\<not> is_nan 0xBF000000" "\<not> is_inf 0xBF000000"
  "f_mag 0x3FC00000 = 3 / 2" "\<not> f_sign 0x3FC00000" "\<not> is_nan 0x3FC00000" "\<not> is_inf 0x3FC00000"
  "f_mag 0x40200000 = 5 / 2" "\<not> f_sign 0x40200000" "\<not> is_nan 0x40200000" "\<not> is_inf 0x40200000"
  "f_mag 0x3F800000 = 1" "\<not> f_sign 0x3F800000" "\<not> is_nan 0x3F800000" "\<not> is_inf 0x3F800000"
  "f_mag 0x40000000 = 2" "\<not> f_sign 0x40000000" "\<not> is_nan 0x40000000" "\<not> is_inf 0x40000000"
  "f_mag 0x40400000 = 3" "\<not> f_sign 0x40400000" "\<not> is_nan 0x40400000" "\<not> is_inf 0x40400000"
  "f_mag 0x80000000 = 0" "f_sign 0x80000000" "\<not> is_nan 0x80000000" "\<not> is_inf 0x80000000"
  "f_mag 0 = 0" "\<not> f_sign 0" "\<not> is_nan 0" "\<not> is_inf 0"
  by (simp_all add: f_mag_def f_sign_def is_nan_def is_inf_def f_exp_def f_man_def pow2_def)

lemma floor_consts:
  "\<lfloor>1 / 2 :: rat\<rfloor> = 0" "\<lfloor>3 / 2 :: rat\<rfloor> = 1" "\<lfloor>5 / 2 :: rat\<rfloor> = 2"
  "\<lfloor>- (1 / 2) :: rat\<rfloor> = - 1" "\<lfloor>- 1 :: rat\<rfloor> = - 1"
  by (simp_all add: floor_eq_iff)

lemma rne_halves: "rne (1 / 2) = 0" "rne (3 / 2) = 2" "rne (5 / 2) = 2" "rne 1 = 1"
  by (simp_all add: rne_def Let_def floor_consts)

lemma floorf_consts: "floorf 0xBF800000 = 0xBF800000" "floorf 0xBF000000 = 0xBF800000"
  by (simp_all add: floorf_def float_consts f_val_def f_of_int_def f_round_small_ints f_pack_def
      floor_consts)

lemma cvtt_consts: "cvtt 0xBF800000 = - 1" "cvtt 0xBF000000 = 0" "cvtt 0 = 0" "cvtt 0x80000000 = 0"
  "cvtt 0x3F800000 = 1" "cvtt 0x40000000 = 2" "cvtt 0x40400000 = 3"
  by (simp_all add: cvtt_def float_consts Let_def floor_consts)

lemma f_lt_consts: "f_lt 0xBF800000 0" "f_lt 0xBF000000 0"
  by (simp_all add: f_lt_def f_key_def float_consts)

lemmas op_defs = floori_def int4_float4_def mm_cvttps_epi32_def map_lanes_def SIMD_RETURN_def
  float4_float_def float4_load_def splat_def defined_SSE_def bitcast_to_int4_def float4_lt_def
  mm_cmplt_ps_def map2_lanes_def bool_lane_def float4_Zero_def mm_setzero_def int4_add_def
  int4_int_def int4_load_def int4_int4_def int4_load4_def float4_floor_def mm_floor_ps_def
  float4_float4_def float4_load4_def Let_def f_zero_def float4_round_def mm_round_ps_nearest_def rint_def

text \<open>
  C3 fails in the SSE2 and SSE3 builds: there \<^verbatim>\<open>floori\<close> truncates and then adds the
  mask of \<^verbatim>\<open>a < 0\<close>, so \<^verbatim>\<open>floori(float4(-1.0f))\<close> is \<open>-2\<close> in every lane, while the
  SSE4.1 and scalar builds return \<open>(int) floor(-1.0) = -1\<close>. At \<open>-0.5\<close> the SSE2 build
  returns \<open>-1\<close>, as the other builds do.
\<close>

theorem floori_negative_whole:
  "floori SSE2 (float4_float SSE2 0xBF800000) = int4_int SSE2 (- 2)
   \<and> floori SSE3 (float4_float SSE3 0xBF800000) = int4_int SSE3 (- 2)
   \<and> floori SSE4 (float4_float SSE4 0xBF800000) = int4_int SSE4 (- 1)
   \<and> floori NoSIMD (float4_float NoSIMD 0xBF800000) = int4_int NoSIMD (- 1)
   \<and> floori SSE2 (float4_float SSE2 0xBF000000) = int4_int SSE2 (- 1)"
  by (simp add: op_defs cvtt_consts f_lt_consts floorf_consts)

lemma round_consts:
  "round_nearest_even 0x3F000000 = 0" "round_nearest_even 0x3FC00000 = 0x40000000"
  "round_nearest_even 0x40200000 = 0x40000000" "round_nearest_even 0xBF000000 = 0x80000000"
  "roundf 0x3F000000 = 0x3F800000" "roundf 0x3FC00000 = 0x40000000"
  "roundf 0x40200000 = 0x40400000" "roundf 0xBF000000 = 0xBF800000"
  by (simp_all add: round_nearest_even_def roundf_def float_consts rne_halves f_of_int_def
      f_round_small_ints f_pack_def floor_consts)

text \<open>
  C4 fails in the SSE4.1 build: \<^verbatim>\<open>_mm_round_ps\<close> with \<^verbatim>\<open>_MM_FROUND_TO_NEAREST_INT\<close>
  rounds halfway cases to the even integer, so \<^verbatim>\<open>round\<close> of \<open>(0.5, 1.5, 2.5, -0.5)\<close>
  is \<open>(0.0, 2.0, 2.0, -0.0)\<close> and \<^verbatim>\<open>rint\<close> is \<open>(0, 2, 2, 0)\<close>; the SSE2 and scalar
  builds use \<^verbatim>\<open>roundf\<close> and give \<open>(1.0, 2.0, 3.0, -1.0)\<close> and \<open>(1, 2, 3, -1)\<close>.
\<close>

theorem round_half_cases:
  "float4_round SSE4 (V4 0x3F000000 0x3FC00000 0x40200000 0xBF000000)
     = V4 0 0x40000000 0x40000000 0x80000000
   \<and> rint SSE4 (V4 0x3F000000 0x3FC00000 0x40200000 0xBF000000) = V4 0 2 2 0
   \<and> float4_round SSE2 (V4 0x3F000000 0x3FC00000 0x40200000 0xBF000000)
     = V4 0x3F800000 0x40000000 0x40400000 0xBF800000
   \<and> float4_round NoSIMD (V4 0x3F000000 0x3FC00000 0x40200000 0xBF000000)
     = V4 0x3F800000 0x40000000 0x40400000 0xBF800000
   \<and> rint NoSIMD (V4 0x3F000000 0x3FC00000 0x40200000 0xBF000000) = V4 1 2 3 (- 1)"
  by (simp add: op_defs round_consts cvtt_consts)

subsection \<open>float3 division\<close>

text \<open>
  C7 (as amended). On every backend lanes 0..2 of \<^verbatim>\<open>a / b\<close> are \<^verbatim>\<open>a[k] / b[k]\<close>; the
  padding lane of the result is \<^verbatim>\<open>a[3] / 1.0f\<close> in the SSE builds and 0.0 in the scalar
  build, so it does not depend on the padding lane of \<open>b\<close>, and it is finite whenever the
  padding lane of \<open>a\<close> is finite.
\<close>

theorem float3_div_lanes:
  "(\<forall>k<3. lane (float3_div be a b) k = fdiv (lane a k) (lane b k))
   \<and> lane (float3_div be a b) 3 = (if defined_SSE be then fdiv (lane a 3) f_one else f_zero)
   \<and> float3_div be a (set_lane b 3 w) = float3_div be a b
   \<and> (is_finite (lane a 3) \<longrightarrow> is_finite (lane (float3_div be a b) 3))"
proof -
  have "float3_div be a (set_lane b 3 w) = float3_div be a b"
    by (cases b) (simp add: float3_div_def xyz1_def float4_insert_def)
  then show ?thesis
    by (simp add: lane_float3_div fdiv_one f_zero_facts is_finite_def f_zero_def f_exp_def)
qed

theorem float3_div_lanes_witness:
  "(1::nat) < 3 \<and> is_finite (lane (V4 f_one f_one f_one f_one) 3)
   \<and> lane (float3_div SSE2 (V4 f_one f_one f_one f_one) (V4 f_one f_one f_one 0)) 1
       = fdiv f_one f_one
   \<and> lane (float3_div SSE2 (V4 f_one f_one f_one f_one) (V4 f_one f_one f_one 0)) 3
       = fdiv f_one f_one
   \<and> is_finite (lane (float3_div SSE2 (V4 f_one f_one f_one f_one) (V4 f_one f_one f_one 0)) 3)"
  using float3_div_lanes [of SSE2 "V4 f_one f_one f_one f_one" "V4 f_one f_one f_one 0" 0]
  by (simp add: f_one_facts defined_SSE_def unit_arith)

text \<open>
  C7 as stated fails when the padding lane of the dividend is itself a NaN (or an
  infinity): dividing it by 1.0 leaves a NaN in the padding lane of the result.
\<close>

theorem float3_div_padding_counterexample:
  "is_nan (lane (float3_div SSE2 (V4 0 0 0 0x7FC00000) (float3_float3 SSE2 f_one f_one f_one)) 3)"
  by (simp add: lane_float3_div defined_SSE_def fdiv_def nan_of2_def quiet_def is_nan_def
      f_exp_def f_man_def)

end
